theory Spec2Isabelle
  imports Main
begin

section \<open>The Summarizer coordinator (summarizer.ts)\<close>

text \<open>
  A shallow embedding of the class \<^verbatim>\<open>Summarizer\<close>: its private fields and the part of
  the hosting runtime it reads form one record, every call it makes to a collaborator
  (executor, cancellation token, loggers, event emitters, \<^verbatim>\<open>closeFn\<close>) is appended to a
  chronological trace, and every \<^verbatim>\<open>await\<close> is a point where a script supplies the
  collaborator's answer and the calls that other code made in the meantime.
\<close>

subsection \<open>Values\<close>

type_synonym SummarizerStopReason = string

text \<open>A thrown JavaScript \<^verbatim>\<open>Error\<close>, identified by its message.\<close>

datatype error = Error string

fun message :: "error \<Rightarrow> string" where
  "message (Error m) = m"

text \<open>
  Modelled from the spec: \<^verbatim>\<open>Deferred\<close> (common-utils) is not among the sources. The
  spec calls the stop request a single-resolution, write-once future whose later
  resolutions are no-ops; \<open>None\<close> is the pending future.
\<close>

type_synonym 'a Deferred = "'a option"

definition resolve :: "'a \<Rightarrow> 'a Deferred \<Rightarrow> 'a Deferred" where
  "resolve v d = (case d of None \<Rightarrow> Some v | Some w \<Rightarrow> Some w)"

text \<open>
  \<^verbatim>\<open>Promise.race([p, q])\<close> at the moment it is created: an already settled \<open>p\<close> wins
  over an already settled \<open>q\<close>, since the reactions are queued in array order.
\<close>

definition race :: "'a Deferred \<Rightarrow> 'a Deferred \<Rightarrow> 'a Deferred" where
  "race p q = (case p of Some v \<Rightarrow> Some v | None \<Rightarrow> q)"

text \<open>The class \<^verbatim>\<open>SummarizingWarning\<close>; \<open>errorType\<close> and \<open>canRetry\<close> are constants of it.\<close>

record SummarizingWarning =
  errorMessage :: string
  errorType :: string
  canRetry :: bool
  fluidErrorCode :: string
  logged :: bool

definition summarizingError :: string where
  "summarizingError = ''summarizingError''"

definition newSummarizingWarning :: "string \<Rightarrow> string \<Rightarrow> bool \<Rightarrow> SummarizingWarning" where
  "newSummarizingWarning errMsg errorCode lg =
     \<lparr>errorMessage = errMsg, errorType = summarizingError, canRetry = True,
      fluidErrorCode = errorCode, logged = lg\<rparr>"


text \<open>
  A reference to a \<^verbatim>\<open>RunningSummarizer\<close>: the identity of the executor and its
  \<^verbatim>\<open>disposed\<close> property as the coordinator reads it.
\<close>

record RunningSummarizer =
  rsId :: nat
  rsDisposed :: bool

text \<open>The acknowledgment that \<^verbatim>\<open>waitSummaryAck\<close> resolves with, flattened.\<close>

record SummaryAck =
  referenceSequenceNumber :: int
  summaryOpHandle :: string
  summaryAckHandle :: string

text \<open>
  The options handed to \<^verbatim>\<open>RunningSummarizer.start\<close>, reduced to the one field the
  coordinator ever sets: \<open>disableHeuristics\<close>, \<open>None\<close> when absent.
\<close>

type_synonym SummarizerOptions = "bool option"

text \<open>
  Everything the coordinator does to the outside, in the order it does it. Telemetry
  payloads are reduced to the event name and the value the claims speak of.
\<close>

datatype effect =
    RunningSummarizerEvent "string option" int
  | StoppingSummarizerEvent string SummarizerStopReason
  | ErrorEvent string int
  | WrapErrorLogged string
  | CoordinatorCreate
  | CoordinatorStop SummarizerStopReason
  | RsStart string SummarizerOptions
  | RsDispose nat
  | RsWaitStop nat bool
  | RsSummarizeOnDemand nat string
  | RsEnqueueSummarize nat string
  | InboundOn nat
  | InboundOff nat
  | RuntimeOn nat
  | RuntimeRemoveListener nat
  | CloseFn
  | WaitSummaryAck int
  | RefreshLatestSummaryAck string string int
  | EmitSummarizingError SummarizingWarning

subsection \<open>The coordinator's state\<close>

text \<open>
  The private fields of \<^verbatim>\<open>Summarizer\<close> (\<open>disposed\<close> is \<^verbatim>\<open>_disposed\<close>; a listener is the
  closure over the executor it forwards to, named by that executor's id), the fields of
  \<^verbatim>\<open>this.runtime\<close> the class reads, the listeners registered on
  \<^verbatim>\<open>runtime.deltaManager.inbound\<close> for "op" and on the runtime for "batchEnd", and the trace.
\<close>

record Summarizer =
  runningSummarizer :: "RunningSummarizer option"
  systemOpListener :: "nat option"
  opListener :: "nat option"
  disposed :: bool
  stopDeferred :: "SummarizerStopReason Deferred"
  clientId :: "string option"
  summarizerClientId :: "string option"
  initialSequenceNumber :: int
  inboundOpListeners :: "nat list"
  batchEndListeners :: "nat list"
  trace :: "effect list"

definition emit :: "effect \<Rightarrow> Summarizer \<Rightarrow> Summarizer" where
  "emit e s = s\<lparr>trace := trace s @ [e]\<rparr>"

text \<open>
  Node's \<^verbatim>\<open>EventEmitter.removeListener\<close>: the most recently added instance of the
  listener is removed; a listener that is not registered leaves the list as it is.
\<close>

fun removeFirst :: "nat \<Rightarrow> nat list \<Rightarrow> nat list" where
  "removeFirst l [] = []"
| "removeFirst l (x # xs) = (if x = l then xs else x # removeFirst l xs)"

definition removeListener :: "nat \<Rightarrow> nat list \<Rightarrow> nat list" where
  "removeListener l ls = rev (removeFirst l (rev ls))"

text \<open>A fresh coordinator as its constructor leaves it, on a connected runtime.\<close>

definition newSummarizer :: "string option \<Rightarrow> string option \<Rightarrow> int \<Rightarrow> Summarizer" where
  "newSummarizer cid scid initSeq =
     \<lparr>runningSummarizer = None, systemOpListener = None, opListener = None,
      disposed = False, stopDeferred = None, clientId = cid, summarizerClientId = scid,
      initialSequenceNumber = initSeq, inboundOpListeners = [], batchEndListeners = [],
      trace = []\<rparr>"

subsection \<open>stop and dispose\<close>

definition stop :: "SummarizerStopReason \<Rightarrow> Summarizer \<Rightarrow> Summarizer" where
  "stop reason s = s\<lparr>stopDeferred := resolve reason (stopDeferred s)\<rparr>"

text \<open>The statements of \<^verbatim>\<open>dispose\<close> after its call to \<^verbatim>\<open>stop\<close>, one definition each.\<close>

definition disposeMarkDisposed :: "Summarizer \<Rightarrow> Summarizer" where
  "disposeMarkDisposed s = s\<lparr>disposed := True\<rparr>"

definition disposeRunningSummarizer :: "Summarizer \<Rightarrow> Summarizer" where
  "disposeRunningSummarizer s =
     (case runningSummarizer s of
        Some rs \<Rightarrow> (emit (RsDispose (rsId rs)) s)\<lparr>runningSummarizer := None\<rparr>
      | None \<Rightarrow> s)"

definition disposeSystemOpListener :: "Summarizer \<Rightarrow> Summarizer" where
  "disposeSystemOpListener s =
     (case systemOpListener s of
        Some l \<Rightarrow> (emit (InboundOff l) s)
                    \<lparr>inboundOpListeners := removeListener l (inboundOpListeners s)\<rparr>
      | None \<Rightarrow> s)"

definition disposeOpListener :: "Summarizer \<Rightarrow> Summarizer" where
  "disposeOpListener s =
     (case opListener s of
        Some l \<Rightarrow> (emit (RuntimeRemoveListener l) s)
                    \<lparr>batchEndListeners := removeListener l (batchEndListeners s)\<rparr>
      | None \<Rightarrow> s)"

definition dispose :: "Summarizer \<Rightarrow> Summarizer" where
  "dispose s =
     disposeOpListener (disposeSystemOpListener (disposeRunningSummarizer
       (disposeMarkDisposed (stop ''summarizerClientDisconnected'' s))))"


subsection \<open>Collaborators\<close>

text \<open>
  Modelled from the spec: the cancellation token (\<^verbatim>\<open>ICancellableSummarizerController\<close>,
  runWhileConnectedCoordinator.ts) is not among the sources. The spec gives it a future
  that resolves with a stop reason, an "already cancelled" flag and a method that
  force-resolves it with a given reason.
\<close>

record Token =
  cancelled :: bool
  waitCancelled :: "SummarizerStopReason Deferred"

definition coordinatorStop :: "SummarizerStopReason \<Rightarrow> Token \<Rightarrow> Token" where
  "coordinatorStop reason t =
     t\<lparr>cancelled := True, waitCancelled := resolve reason (waitCancelled t)\<rparr>"

definition freshToken :: Token where
  "freshToken = \<lparr>cancelled = False, waitCancelled = None\<rparr>"

text \<open>
  Modelled from the spec: \<^verbatim>\<open>wrapErrorAndLog\<close> (telemetry-utils) is not among the
  sources. \<^verbatim>\<open>SummarizingWarning.wrap\<close> passes it a constructor of the warning; the
  wrapped error keeps the message of the original and the wrapping is logged.
\<close>

definition wrap :: "error \<Rightarrow> string \<Rightarrow> bool \<Rightarrow> Summarizer \<Rightarrow> SummarizingWarning \<times> Summarizer" where
  "wrap err errorCode lg s =
     (newSummarizingWarning (message err) errorCode lg, emit (WrapErrorLogged errorCode) s)"

text \<open>
  Modelled from the spec: \<^verbatim>\<open>OnDemandSummarizeResultBuilder\<close> (summaryGenerator.ts) is
  not among the sources. The spec gives it two independently settleable outcomes, the
  "started" stage and the overall built result; failing the builder settles with the
  failure every outcome that is still pending.
\<close>

datatype StageResult = Success | Failure string error

record OnDemandSummarizeResultBuilder =
  summarizerStarted :: "StageResult Deferred"
  builtResult :: "StageResult Deferred"

definition newBuilder :: OnDemandSummarizeResultBuilder where
  "newBuilder = \<lparr>summarizerStarted = None, builtResult = None\<rparr>"

definition fail :: "string \<Rightarrow> error \<Rightarrow> OnDemandSummarizeResultBuilder \<Rightarrow> OnDemandSummarizeResultBuilder" where
  "fail msg err b =
     b\<lparr>summarizerStarted := resolve (Failure msg err) (summarizerStarted b),
       builtResult := resolve (Failure msg err) (builtResult b)\<rparr>"

subsection \<open>What other code does while the coordinator is suspended\<close>

text \<open>
  Calls on the coordinator itself, and the external cancellation of the session's token
  (disconnect, leadership loss, or the executor's stop callback).
\<close>

datatype callerEvent = StopCalled SummarizerStopReason | DisposeCalled

datatype event = Caller callerEvent | TokenCancelled SummarizerStopReason

fun applyCallerEvent :: "callerEvent \<Rightarrow> Summarizer \<Rightarrow> Summarizer" where
  "applyCallerEvent (StopCalled reason) s = stop reason s"
| "applyCallerEvent DisposeCalled s = dispose s"

fun applyCallerEvents :: "callerEvent list \<Rightarrow> Summarizer \<Rightarrow> Summarizer" where
  "applyCallerEvents [] s = s"
| "applyCallerEvents (e # es) s = applyCallerEvents es (applyCallerEvent e s)"

text \<open>
  The promise \<^verbatim>\<open>stopP\<close> of a session: not yet created, pending (with the
  \<^verbatim>\<open>onBehalfOf\<close> of the telemetry continuation that \<^verbatim>\<open>runCore\<close> chains to it, if any),
  or settled with the winning reason (and the continuation, while it is still queued).
\<close>

datatype StopRace =
    NotStarted
  | Waiting "string option"
  | Won SummarizerStopReason "string option"

record Session =
  summarizer :: Summarizer
  runCoordinator :: Token
  stopP :: StopRace

text \<open>
  Creating the race. \<open>tokenFirst\<close> is the array order: \<^verbatim>\<open>runCore\<close> lists the token's
  future first, the on-demand teardown lists the stop request first.
\<close>

definition startRace :: "bool \<Rightarrow> string option \<Rightarrow> Session \<Rightarrow> Session" where
  "startRace tokenFirst telemetry ss =
     (let p = waitCancelled (runCoordinator ss); q = stopDeferred (summarizer ss)
      in case (if tokenFirst then race p q else race q p) of
           None \<Rightarrow> ss\<lparr>stopP := Waiting telemetry\<rparr>
         | Some reason \<Rightarrow> ss\<lparr>stopP := Won reason telemetry\<rparr>)"

text \<open>
  A pending race has both inputs pending, so it settles with whichever of them the
  last event resolved.
\<close>

definition settle :: "Session \<Rightarrow> Session" where
  "settle ss =
     (case stopP ss of
        Waiting telemetry \<Rightarrow>
          (case race (waitCancelled (runCoordinator ss)) (stopDeferred (summarizer ss)) of
             None \<Rightarrow> ss
           | Some reason \<Rightarrow> ss\<lparr>stopP := Won reason telemetry\<rparr>)
      | _ \<Rightarrow> ss)"

text \<open>The queued telemetry continuation of \<^verbatim>\<open>stopP\<close> runs at the next microtask.\<close>

definition flush :: "Session \<Rightarrow> Session" where
  "flush ss =
     (case stopP ss of
        Won reason (Some onBehalfOf) \<Rightarrow>
          ss\<lparr>summarizer := emit (StoppingSummarizerEvent onBehalfOf reason) (summarizer ss),
             stopP := Won reason None\<rparr>
      | _ \<Rightarrow> ss)"

fun applyEvent :: "event \<Rightarrow> Session \<Rightarrow> Session" where
  "applyEvent (Caller e) ss =
     flush (settle (ss\<lparr>summarizer := applyCallerEvent e (summarizer ss)\<rparr>))"
| "applyEvent (TokenCancelled reason) ss =
     flush (settle (ss\<lparr>runCoordinator := coordinatorStop reason (runCoordinator ss)\<rparr>))"

fun applyEvents :: "event list \<Rightarrow> Session \<Rightarrow> Session" where
  "applyEvents [] ss = ss"
| "applyEvents (e # es) ss = applyEvents es (applyEvent e ss)"

text \<open>An \<^verbatim>\<open>await\<close>: queued continuations run, then the events of the wait happen in order.\<close>

definition suspend :: "event list \<Rightarrow> Session \<Rightarrow> Session" where
  "suspend evs ss = applyEvents evs (flush ss)"

subsection \<open>handleSummaryAcks\<close>

text \<open>
  One iteration's answers from outside: what \<^verbatim>\<open>waitSummaryAck\<close> settles with, what
  \<^verbatim>\<open>refreshLatestSummaryAck\<close> settles with (asked only after an ack), and the calls made on
  the coordinator during each of the two waits.
\<close>

record AckIter =
  ackResult :: "error + SummaryAck"
  duringAckWait :: "callerEvent list"
  refreshResult :: "error + unit"
  duringRefresh :: "callerEvent list"

text \<open>
  The body of the \<^verbatim>\<open>while\<close> loop with its \<^verbatim>\<open>try\<close>/\<^verbatim>\<open>catch\<close> and the final
  \<^verbatim>\<open>refSequenceNumber++\<close>; sequence numbers are integers, far below the range where a
  JavaScript number stops being exact. The correlated logger and the coordinator's own
  logger both write to the one trace.
\<close>

definition ackIteration :: "AckIter \<Rightarrow> int \<Rightarrow> Summarizer \<Rightarrow> int \<times> Summarizer" where
  "ackIteration it refSequenceNumber s =
     (let s1 = applyCallerEvents (duringAckWait it) (emit (WaitSummaryAck refSequenceNumber) s)
      in case ackResult it of
           Inl err \<Rightarrow>
             (refSequenceNumber + 1,
              emit (ErrorEvent ''HandleSummaryAckError'' refSequenceNumber) s1)
         | Inr ack \<Rightarrow>
             (let refSequenceNumber1 = referenceSequenceNumber ack;
                  s2 = applyCallerEvents (duringRefresh it)
                         (emit (RefreshLatestSummaryAck (summaryOpHandle ack) (summaryAckHandle ack)
                                  refSequenceNumber1) s1)
              in case refreshResult it of
                   Inl err \<Rightarrow>
                     (refSequenceNumber1 + 1,
                      emit (ErrorEvent ''HandleSummaryAckError'' refSequenceNumber1) s2)
                 | Inr u \<Rightarrow> (refSequenceNumber1 + 1, s2)))"

text \<open>
  How the loop stands once the script is used up: it has left the \<^verbatim>\<open>while\<close> (the executor
  reference was cleared), or it is suspended in \<^verbatim>\<open>waitSummaryAck\<close> at the given cursor.
\<close>

datatype AckLoop = LoopEnded int | LoopWaiting int

fun handleSummaryAcksFrom :: "AckIter list \<Rightarrow> int \<Rightarrow> Summarizer \<Rightarrow> AckLoop \<times> Summarizer" where
  "handleSummaryAcksFrom [] refSequenceNumber s =
     (case runningSummarizer s of
        None \<Rightarrow> (LoopEnded refSequenceNumber, s)
      | Some rs \<Rightarrow> (LoopWaiting refSequenceNumber, emit (WaitSummaryAck refSequenceNumber) s))"
| "handleSummaryAcksFrom (it # script) refSequenceNumber s =
     (case runningSummarizer s of
        None \<Rightarrow> (LoopEnded refSequenceNumber, s)
      | Some rs \<Rightarrow>
          (case ackIteration it refSequenceNumber s of
             (refSequenceNumber', s') \<Rightarrow> handleSummaryAcksFrom script refSequenceNumber' s'))"

definition handleSummaryAcks :: "AckIter list \<Rightarrow> Summarizer \<Rightarrow> AckLoop \<times> Summarizer" where
  "handleSummaryAcks script s = handleSummaryAcksFrom script (initialSequenceNumber s) s"

subsection \<open>start\<close>

definition registerListeners :: "RunningSummarizer \<Rightarrow> Summarizer \<Rightarrow> Summarizer" where
  "registerListeners rs s =
     (let s1 = (emit (InboundOn (rsId rs)) s)
                 \<lparr>systemOpListener := Some (rsId rs),
                  inboundOpListeners := inboundOpListeners s @ [rsId rs]\<rparr>
      in (emit (RuntimeOn (rsId rs)) s1)
           \<lparr>opListener := Some (rsId rs),
            batchEndListeners := batchEndListeners s1 @ [rsId rs]\<rparr>)"

text \<open>
  \<open>started\<close> is what \<^verbatim>\<open>RunningSummarizer.start\<close> settles with and \<open>evs\<close> what happens while
  \<^verbatim>\<open>start\<close> awaits it. The ack loop is launched without being awaited: it runs up to its
  first \<^verbatim>\<open>waitSummaryAck\<close>, which is \<open>handleSummaryAcks\<close> on the empty script.
\<close>

definition start ::
  "(error + RunningSummarizer) \<Rightarrow> event list \<Rightarrow> string option \<Rightarrow> SummarizerOptions \<Rightarrow> Session
     \<Rightarrow> (error + RunningSummarizer) \<times> Session" where
  "start started evs onBehalfOf options ss =
     (let s1 = emit (RunningSummarizerEvent onBehalfOf (initialSequenceNumber (summarizer ss)))
                 (summarizer ss)
      in case clientId s1 of
           None \<Rightarrow>
             (Inl (Error ''clientId should be defined if connected.''), flush (ss\<lparr>summarizer := s1\<rparr>))
         | Some cid \<Rightarrow>
             (let ss2 = suspend evs (ss\<lparr>summarizer := emit (RsStart cid options) s1\<rparr>)
              in case started of
                   Inl err \<Rightarrow> (Inl err, ss2)
                 | Inr rs \<Rightarrow>
                     (Inr rs,
                      ss2\<lparr>summarizer :=
                            registerListeners rs
                              (snd (handleSummaryAcks []
                                 ((summarizer ss2)\<lparr>runningSummarizer := Some rs\<rparr>)))\<rparr>)))"

subsection \<open>run\<close>

text \<open>
  The answers a session gets at its suspension points, in source order: creating the
  token, starting the executor, waiting for \<^verbatim>\<open>stopP\<close>, and the executor's \<^verbatim>\<open>waitStop\<close>.
  No token exists while it is being created, so only calls on the coordinator happen there.

  The last three fields are the answers to the calls that \<^verbatim>\<open>summarizeOnDemand\<close> makes
  synchronously inside its \<^verbatim>\<open>try\<close> block: whether a failing token factory throws while
  it is being called (\<open>True\<close>) instead of returning a promise that rejects; what the
  on-demand entry point of the executor attached at the time of the call does, return
  or throw; and what \<^verbatim>\<open>builder.build()\<close> does, return or throw. Inside the asynchronous
  \<^verbatim>\<open>runCore\<close> a factory that throws and a factory whose promise rejects are the same
  rejection, so \<^verbatim>\<open>run\<close> does not read \<open>createThrows\<close>.
\<close>

record SessionScript =
  createResult :: "error + Token"
  duringCreate :: "callerEvent list"
  startResult :: "error + RunningSummarizer"
  duringStart :: "event list"
  duringStopWait :: "event list"
  waitStopResult :: "error + unit"
  duringWaitStop :: "event list"
  createThrows :: bool
  attachedOnDemand :: "error + unit"
  buildResult :: "error + unit"

text \<open>
  The two calls that end a session: \<^verbatim>\<open>runningSummarizer.waitStop(allowLastSummary)\<close> and
  \<^verbatim>\<open>runCoordinator.stop(stopReason)\<close>.
\<close>

definition callWaitStop :: "RunningSummarizer \<Rightarrow> bool \<Rightarrow> Session \<Rightarrow> Session" where
  "callWaitStop rs allowLastSummary ss =
     ss\<lparr>summarizer := emit (RsWaitStop (rsId rs) allowLastSummary) (summarizer ss)\<rparr>"

definition callCoordinatorStop :: "SummarizerStopReason \<Rightarrow> Session \<Rightarrow> Session" where
  "callCoordinatorStop reason ss =
     ss\<lparr>summarizer := emit (CoordinatorStop reason) (summarizer ss),
        runCoordinator := coordinatorStop reason (runCoordinator ss)\<rparr>"

text \<open>
  \<open>None\<close> is a \<^verbatim>\<open>runCore\<close> that is still suspended when the script ends: neither the stop
  request nor the token has settled \<^verbatim>\<open>stopP\<close> (or a token reports \<^verbatim>\<open>cancelled\<close> while
  its future is pending).
\<close>

definition runCore ::
  "SessionScript \<Rightarrow> string \<Rightarrow> SummarizerOptions \<Rightarrow> Summarizer
     \<Rightarrow> (error + SummarizerStopReason) option \<times> Summarizer" where
  "runCore sc onBehalfOf options s =
     (let s1 = applyCallerEvents (duringCreate sc) (emit CoordinatorCreate s)
      in case createResult sc of
           Inl err \<Rightarrow> (Some (Inl err), s1)
         | Inr tok \<Rightarrow>
             (let ss = startRace True (Some onBehalfOf)
                         \<lparr>summarizer = s1, runCoordinator = tok, stopP = NotStarted\<rparr>
              in if cancelled tok then
                   (case waitCancelled tok of
                      None \<Rightarrow> (None, summarizer (flush ss))
                    | Some reason \<Rightarrow> (Some (Inr reason), summarizer (flush ss)))
                 else
                   (case start (startResult sc) (duringStart sc) (Some onBehalfOf) options ss of
                      (Inl err, ss1) \<Rightarrow> (Some (Inl err), summarizer ss1)
                    | (Inr rs, ss1) \<Rightarrow>
                        (let ss2 = suspend (duringStopWait sc) ss1
                         in case stopP ss2 of
                              Won stopReason telemetry \<Rightarrow>
                                (let ss3 = suspend (duringWaitStop sc)
                                             (callWaitStop rs (\<not> cancelled (runCoordinator ss2)) ss2)
                                 in case waitStopResult sc of
                                      Inl err \<Rightarrow> (Some (Inl err), summarizer ss3)
                                    | Inr u \<Rightarrow>
                                        (Some (Inr stopReason),
                                         summarizer (callCoordinatorStop stopReason ss3)))
                            | _ \<Rightarrow> (None, summarizer ss2)))))"

text \<open>How a call of \<^verbatim>\<open>run\<close> ends: its promise resolves, rejects, or stays pending.\<close>

datatype completion = Returned SummarizerStopReason | Threw SummarizingWarning | Hung

definition runFinally :: "Summarizer \<Rightarrow> Summarizer" where
  "runFinally s = emit CloseFn (dispose s)"

definition run ::
  "SessionScript \<Rightarrow> string \<Rightarrow> SummarizerOptions \<Rightarrow> Summarizer \<Rightarrow> completion \<times> Summarizer" where
  "run sc onBehalfOf options s =
     (case runCore sc onBehalfOf options s of
        (None, s1) \<Rightarrow> (Hung, s1)
      | (Some (Inr reason), s1) \<Rightarrow> (Returned reason, runFinally s1)
      | (Some (Inl err), s1) \<Rightarrow>
          (case wrap err ''summarizerRun'' False (stop ''summarizerException'' s1) of
             (warning, s2) \<Rightarrow> (Threw warning, runFinally s2)))"

subsection \<open>summarizeOnDemand and enqueueSummarize\<close>

text \<open>
  The promise chain that \<^verbatim>\<open>summarizeOnDemand\<close> attaches to the promise of the token
  factory when no executor is attached (the two \<^verbatim>\<open>then\<close> continuations and their
  \<^verbatim>\<open>catch\<close> handlers), followed as far as the script lets it run; the result is the
  builder as the chain leaves it.

  Modelled from the spec: \<^verbatim>\<open>RunningSummarizer.summarizeOnDemand\<close> is not among the
  sources; the spec has the new executor take the request that the chain forwards to it.
\<close>

definition onDemandBootstrap ::
  "SessionScript \<Rightarrow> string \<Rightarrow> OnDemandSummarizeResultBuilder \<Rightarrow> Summarizer
     \<Rightarrow> OnDemandSummarizeResultBuilder \<times> Summarizer" where
  "onDemandBootstrap sc args builder s =
     (let s1 = applyCallerEvents (duringCreate sc) s
      in case createResult sc of
           Inl reason \<Rightarrow> (fail ''Failed to create cancellation token'' reason builder, s1)
         | Inr tok \<Rightarrow>
             (case start (startResult sc) (duringStart sc) (clientId s1) (Some True)
                     \<lparr>summarizer = s1, runCoordinator = tok, stopP = NotStarted\<rparr> of
                (Inl reason, ss1) \<Rightarrow>
                  (fail ''Failed to start summarizer'' reason builder, summarizer ss1)
              | (Inr rs, ss1) \<Rightarrow>
                  (let b1 = builder\<lparr>summarizerStarted := resolve Success (summarizerStarted builder)\<rparr>;
                       ss2 = ss1\<lparr>summarizer := emit (RsSummarizeOnDemand (rsId rs) args) (summarizer ss1)\<rparr>;
                       ss3 = suspend (duringStopWait sc) (startRace False None ss2)
                   in case stopP ss3 of
                        Won stopReason telemetry \<Rightarrow>
                          (let ss4 = suspend (duringWaitStop sc) (callWaitStop rs False ss3)
                           in case waitStopResult sc of
                                Inl reason \<Rightarrow>
                                  (fail ''Failed to start summarizer'' reason b1, summarizer ss4)
                              | Inr u \<Rightarrow>
                                  (b1, emit CloseFn
                                         (dispose (summarizer (callCoordinatorStop stopReason ss4)))))
                      | _ \<Rightarrow> (b1, summarizer ss3))))"

text \<open>
  The error with which the token factory throws while it is being called, if it does.
\<close>

definition factoryThrows :: "SessionScript \<Rightarrow> error option" where
  "factoryThrows sc =
     (case createResult sc of
        Inl err \<Rightarrow> (if createThrows sc then Some err else None)
      | Inr tok \<Rightarrow> None)"

text \<open>
  The \<^verbatim>\<open>catch\<close> of \<^verbatim>\<open>summarizeOnDemand\<close>: whatever was thrown inside the \<^verbatim>\<open>try\<close> is
  wrapped and thrown again.
\<close>

definition rethrowWrapped :: "error \<Rightarrow> Summarizer \<Rightarrow> (SummarizingWarning + 'a) \<times> Summarizer" where
  "rethrowWrapped err s =
     (case wrap err ''summarizerRun'' False s of (warning, s') \<Rightarrow> (Inl warning, s'))"

text \<open>
  The slow path of \<^verbatim>\<open>summarizeOnDemand\<close>: the executor reference is cleared and the
  token factory called. If the factory throws, that is rethrown and nothing else
  happens. Otherwise the chain is attached to the factory's promise and
  \<^verbatim>\<open>builder.build()\<close> is returned; if \<^verbatim>\<open>build\<close> throws, that is rethrown, while the chain,
  attached already, still runs.
\<close>

definition onDemandStart ::
  "SessionScript \<Rightarrow> string \<Rightarrow> Summarizer
     \<Rightarrow> (SummarizingWarning + OnDemandSummarizeResultBuilder) \<times> Summarizer" where
  "onDemandStart sc args s =
     (let s1 = emit CoordinatorCreate (s\<lparr>runningSummarizer := None\<rparr>)
      in case factoryThrows sc of
           Some err \<Rightarrow> rethrowWrapped err s1
         | None \<Rightarrow>
             (case buildResult sc of
                Inl err \<Rightarrow>
                  (case rethrowWrapped err s1 of
                     (thrown, s2) \<Rightarrow> (thrown, snd (onDemandBootstrap sc args newBuilder s2)))
              | Inr u \<Rightarrow>
                  (case onDemandBootstrap sc args newBuilder s1 of (b, s') \<Rightarrow> (Inr b, s'))))"

text \<open>
  \<open>Inl\<close> is the warning thrown synchronously; \<open>Inr\<close> is the returned results object, read
  once the bootstrap chain (if one was started) has run through the script. On the fast
  path the request goes to the attached executor, whose entry point returns the results
  or throws, as the script says.
\<close>

definition summarizeOnDemand ::
  "SessionScript \<Rightarrow> string \<Rightarrow> Summarizer
     \<Rightarrow> (SummarizingWarning + OnDemandSummarizeResultBuilder) \<times> Summarizer" where
  "summarizeOnDemand sc args s =
     (if disposed s then rethrowWrapped (Error ''Summarizer is already disposed.'') s
      else if summarizerClientId s \<noteq> None \<and> summarizerClientId s \<noteq> clientId s then
        rethrowWrapped (Error ''On-demand summary attempted while an elected summarizer is present'') s
      else
        (case runningSummarizer s of
           Some rs \<Rightarrow>
             (if \<not> rsDisposed rs then
                (case attachedOnDemand sc of
                   Inl err \<Rightarrow> rethrowWrapped err (emit (RsSummarizeOnDemand (rsId rs) args) s)
                 | Inr u \<Rightarrow>
                     (Inr (newBuilder\<lparr>summarizerStarted := resolve Success (summarizerStarted newBuilder)\<rparr>),
                      emit (RsSummarizeOnDemand (rsId rs) args) s))
              else onDemandStart sc args s)
         | None \<Rightarrow> onDemandStart sc args s))"

text \<open>\<open>result\<close> is whatever the executor's \<^verbatim>\<open>enqueueSummarize\<close> returns for these arguments.\<close>

definition enqueueSummarize :: "(string \<Rightarrow> 'r) \<Rightarrow> string \<Rightarrow> Summarizer \<Rightarrow> (error + 'r) \<times> Summarizer" where
  "enqueueSummarize result args s =
     (if disposed s then (Inl (Error ''Summarizer is not running or already disposed.''), s)
      else
        (case runningSummarizer s of
           None \<Rightarrow> (Inl (Error ''Summarizer is not running or already disposed.''), s)
         | Some rs \<Rightarrow>
             (if rsDisposed rs then
                (Inl (Error ''Summarizer is not running or already disposed.''), s)
              else (Inr (result args), emit (RsEnqueueSummarize (rsId rs) args) s))))"

subsection \<open>Reading the trace\<close>

text \<open>The calls a \<^verbatim>\<open>dispose\<close> can make, by kind.\<close>

fun isRsDispose :: "effect \<Rightarrow> bool" where
  "isRsDispose (RsDispose i) = True"
| "isRsDispose e = False"

fun isListenerOff :: "effect \<Rightarrow> bool" where
  "isListenerOff (InboundOff l) = True"
| "isListenerOff (RuntimeRemoveListener l) = True"
| "isListenerOff e = False"

text \<open>
  What the calls of other code can add to the trace while a session is suspended: the
  calls of a \<^verbatim>\<open>dispose\<close> and the telemetry continuation of \<^verbatim>\<open>stopP\<close>.
\<close>

fun background :: "effect \<Rightarrow> bool" where
  "background (RsDispose i) = True"
| "background (InboundOff l) = True"
| "background (RuntimeRemoveListener l) = True"
| "background (StoppingSummarizerEvent b r) = True"
| "background e = False"

text \<open>The end of a session: stopping the executor, stopping the token, closing the host.\<close>

fun isTeardownCall :: "effect \<Rightarrow> bool" where
  "isTeardownCall (RsWaitStop i b) = True"
| "isTeardownCall (CoordinatorStop r) = True"
| "isTeardownCall CloseFn = True"
| "isTeardownCall e = False"

text \<open>Constructing an executor and registering the two op listeners.\<close>

fun isStartCall :: "effect \<Rightarrow> bool" where
  "isStartCall (RsStart c opts) = True"
| "isStartCall (InboundOn l) = True"
| "isStartCall (RuntimeOn l) = True"
| "isStartCall e = False"

text \<open>Scheduling asynchronous work: asking for a token, or starting an executor.\<close>

fun isAsyncWork :: "effect \<Rightarrow> bool" where
  "isAsyncWork CoordinatorCreate = True"
| "isAsyncWork (RsStart c opts) = True"
| "isAsyncWork e = False"

text \<open>
  The cursor values the ack loop passed to \<^verbatim>\<open>waitSummaryAck\<close>, those it passed to the
  refresh callback, and those it logged with a \<^verbatim>\<open>HandleSummaryAckError\<close>, each in order.
\<close>

fun ackWaits :: "effect list \<Rightarrow> int list" where
  "ackWaits [] = []"
| "ackWaits (WaitSummaryAck n # es) = n # ackWaits es"
| "ackWaits (e # es) = ackWaits es"

fun refreshCalls :: "effect list \<Rightarrow> int list" where
  "refreshCalls [] = []"
| "refreshCalls (RefreshLatestSummaryAck h a n # es) = n # refreshCalls es"
| "refreshCalls (e # es) = refreshCalls es"

fun ackErrors :: "effect list \<Rightarrow> int list" where
  "ackErrors [] = []"
| "ackErrors (ErrorEvent name n # es) =
     (if name = ''HandleSummaryAckError'' then n # ackErrors es else ackErrors es)"
| "ackErrors (e # es) = ackErrors es"

subsection \<open>Reading the scripts\<close>

text \<open>The stop reason an event triggers; a \<^verbatim>\<open>dispose\<close> forces the stop request too.\<close>

fun eventReason :: "event \<Rightarrow> SummarizerStopReason" where
  "eventReason (Caller (StopCalled reason)) = reason"
| "eventReason (Caller DisposeCalled) = ''summarizerClientDisconnected''"
| "eventReason (TokenCancelled reason) = reason"

text \<open>
  Whichever was triggered first: a reason already in force, else the reason of the
  first event, else nothing yet.
\<close>

fun firstTriggered :: "SummarizerStopReason Deferred \<Rightarrow> event list \<Rightarrow> SummarizerStopReason Deferred" where
  "firstTriggered (Some reason) evs = Some reason"
| "firstTriggered None [] = None"
| "firstTriggered None (e # evs) = Some (eventReason e)"

fun isTokenCancelled :: "event \<Rightarrow> bool" where
  "isTokenCancelled (TokenCancelled reason) = True"
| "isTokenCancelled (Caller e) = False"

definition tokenTriggered :: "event list \<Rightarrow> bool" where
  "tokenTriggered evs = list_ex isTokenCancelled evs"



fun isDisposeCalled :: "callerEvent \<Rightarrow> bool" where
  "isDisposeCalled DisposeCalled = True"
| "isDisposeCalled (StopCalled reason) = False"

text \<open>
  The ack loop's cursor after an iteration, the cursor in force when an iteration
  failed (\<open>None\<close> when it did not), and whether the executor was detached during it.
\<close>

definition cursorAfter :: "AckIter \<Rightarrow> int \<Rightarrow> int" where
  "cursorAfter it c =
     (case ackResult it of Inl err \<Rightarrow> c + 1 | Inr ack \<Rightarrow> referenceSequenceNumber ack + 1)"

definition failureCursor :: "AckIter \<Rightarrow> int \<Rightarrow> int option" where
  "failureCursor it c =
     (case ackResult it of
        Inl err \<Rightarrow> Some c
      | Inr ack \<Rightarrow>
          (case refreshResult it of
             Inl err \<Rightarrow> Some (referenceSequenceNumber ack)
           | Inr u \<Rightarrow> None))"

definition iterEvents :: "AckIter \<Rightarrow> callerEvent list" where
  "iterEvents it =
     (case ackResult it of
        Inl err \<Rightarrow> duringAckWait it
      | Inr ack \<Rightarrow> duringAckWait it @ duringRefresh it)"

definition undisturbed :: "AckIter \<Rightarrow> bool" where
  "undisturbed it = (\<not> list_ex isDisposeCalled (iterEvents it))"

fun cursors :: "AckIter list \<Rightarrow> int \<Rightarrow> int list" where
  "cursors [] c = [c]"
| "cursors (it # script) c = c # cursors script (cursorAfter it c)"

fun receivedAcks :: "AckIter list \<Rightarrow> int list" where
  "receivedAcks [] = []"
| "receivedAcks (it # script) =
     (case ackResult it of
        Inl err \<Rightarrow> receivedAcks script
      | Inr ack \<Rightarrow> referenceSequenceNumber ack # receivedAcks script)"

fun failureCursors :: "AckIter list \<Rightarrow> int \<Rightarrow> int list" where
  "failureCursors [] c = []"
| "failureCursors (it # script) c =
     (case failureCursor it c of
        None \<Rightarrow> failureCursors script (cursorAfter it c)
      | Some f \<Rightarrow> f # failureCursors script (cursorAfter it c))"

text \<open>The calls a single \<^verbatim>\<open>dispose\<close> makes from a given state.\<close>

definition executorDisposeCalls :: "Summarizer \<Rightarrow> effect list" where
  "executorDisposeCalls s =
     (case runningSummarizer s of Some rs \<Rightarrow> [RsDispose (rsId rs)] | None \<Rightarrow> [])"

definition listenerOffCalls :: "Summarizer \<Rightarrow> effect list" where
  "listenerOffCalls s =
     (case systemOpListener s of Some l \<Rightarrow> [InboundOff l] | None \<Rightarrow> []) @
     (case opListener s of Some l \<Rightarrow> [RuntimeRemoveListener l] | None \<Rightarrow> [])"

text \<open>The reason a session's \<^verbatim>\<open>stopP\<close> has settled with, if it has.\<close>

fun winner :: "StopRace \<Rightarrow> SummarizerStopReason Deferred" where
  "winner (Won reason telemetry) = Some reason"
| "winner (Waiting telemetry) = None"
| "winner NotStarted = None"

text \<open>
  A race that has been created is consistent when, as long as it is pending, the stop
  request and the token's future are pending too.
\<close>

definition raceOk :: "Session \<Rightarrow> bool" where
  "raceOk ss =
     (stopP ss \<noteq> NotStarted \<and>
      (winner (stopP ss) = None \<longrightarrow>
         stopDeferred (summarizer ss) = None \<and> waitCancelled (runCoordinator ss) = None))"

fun isCloseFn :: "effect \<Rightarrow> bool" where
  "isCloseFn CloseFn = True"
| "isCloseFn e = False"

text \<open>
  The guard of the fast path of \<^verbatim>\<open>summarizeOnDemand\<close>: an executor is attached and it
  is not disposed.
\<close>

definition executorLive :: "Summarizer \<Rightarrow> bool" where
  "executorLive s =
     (case runningSummarizer s of Some rs \<Rightarrow> \<not> rsDisposed rs | None \<Rightarrow> False)"


subsection \<open>Example sessions\<close>

text \<open>
  A fresh coordinator on a runtime connected as \<^verbatim>\<open>client-A\<close> with no elected
  summarizer, an executor, and the coordinator once \<^verbatim>\<open>start\<close> has attached that executor.
\<close>

definition clientA :: Summarizer where
  "clientA = newSummarizer (Some ''client-A'') None 0"

definition executor1 :: RunningSummarizer where
  "executor1 = \<lparr>rsId = 1, rsDisposed = False\<rparr>"

definition startedA :: Summarizer where
  "startedA =
     summarizer (snd (start (Inr executor1) [] (Some ''client-A'') None
       \<lparr>summarizer = clientA, runCoordinator = freshToken, stopP = NotStarted\<rparr>))"

text \<open>
  The coordinator as \<^verbatim>\<open>start\<close> has it when it launches the ack loop, and four acks with
  reference sequence numbers 5, 5, 9 and 20, the refresh callback failing on the third.
\<close>

definition attachedA :: Summarizer where
  "attachedA = clientA\<lparr>runningSummarizer := Some executor1\<rparr>"

definition ackOf :: "int \<Rightarrow> error + unit \<Rightarrow> AckIter" where
  "ackOf n refreshed =
     \<lparr>ackResult = Inr \<lparr>referenceSequenceNumber = n, summaryOpHandle = ''summary'',
                       summaryAckHandle = ''ack''\<rparr>,
      duringAckWait = [], refreshResult = refreshed, duringRefresh = []\<rparr>"

definition fourAcks :: "AckIter list" where
  "fourAcks = [ackOf 5 (Inr ()), ackOf 5 (Inr ()), ackOf 9 (Inl (Error ''refresh failed'')),
               ackOf 20 (Inr ())]"

text \<open>
  The scenario of a session run on behalf of \<^verbatim>\<open>client-A\<close>: the token is created
  uncancelled, the executor starts, and then the token is resolved from outside with
  \<^verbatim>\<open>connectivityLoss\<close>.
\<close>

definition connectivityLoss :: SessionScript where
  "connectivityLoss =
     \<lparr>createResult = Inr freshToken, duringCreate = [], startResult = Inr executor1,
      duringStart = [], duringStopWait = [TokenCancelled ''connectivityLoss''],
      waitStopResult = Inr (), duringWaitStop = [], createThrows = False,
      attachedOnDemand = Inr (), buildResult = Inr ()\<rparr>"

text \<open>
  Two further sessions: one whose token is handed over already cancelled, and one
  whose token cannot be created at all.
\<close>

definition alreadyCancelled :: SessionScript where
  "alreadyCancelled =
     \<lparr>createResult = Inr \<lparr>cancelled = True, waitCancelled = Some ''parentNotConnected''\<rparr>,
      duringCreate = [], startResult = Inr executor1, duringStart = [], duringStopWait = [],
      waitStopResult = Inr (), duringWaitStop = [], createThrows = False,
      attachedOnDemand = Inr (), buildResult = Inr ()\<rparr>"

definition creationFails :: SessionScript where
  "creationFails =
     \<lparr>createResult = Inl (Error ''no connection''), duringCreate = [],
      startResult = Inr executor1, duringStart = [], duringStopWait = [],
      waitStopResult = Inr (), duringWaitStop = [], createThrows = False,
      attachedOnDemand = Inr (), buildResult = Inr ()\<rparr>"

text \<open>An on-demand session that is told to stop once its summary has been requested.\<close>

definition onDemandThenStop :: SessionScript where
  "onDemandThenStop =
     \<lparr>createResult = Inr freshToken, duringCreate = [], startResult = Inr executor1,
      duringStart = [], duringStopWait = [Caller (StopCalled ''done'')],
      waitStopResult = Inr (), duringWaitStop = [], createThrows = False,
      attachedOnDemand = Inr (), buildResult = Inr ()\<rparr>"

text \<open>
  A session whose executor fails to start, a coordinator on a runtime that reports no
  client id, and one on a runtime where \<^verbatim>\<open>client-B\<close> is the elected summarizer.
\<close>

definition startFails :: SessionScript where
  "startFails =
     \<lparr>createResult = Inr freshToken, duringCreate = [],
      startResult = Inl (Error ''start failed''), duringStart = [], duringStopWait = [],
      waitStopResult = Inr (), duringWaitStop = [], createThrows = False,
      attachedOnDemand = Inr (), buildResult = Inr ()\<rparr>"

text \<open>
  Sessions in which a call inside the \<^verbatim>\<open>try\<close> block of \<^verbatim>\<open>summarizeOnDemand\<close> throws:
  the token factory, the attached executor's on-demand entry point, \<^verbatim>\<open>builder.build()\<close>.
\<close>

definition creationThrows :: SessionScript where
  "creationThrows = creationFails\<lparr>createThrows := True\<rparr>"

definition executorRefuses :: SessionScript where
  "executorRefuses = onDemandThenStop\<lparr>attachedOnDemand := Inl (Error ''already summarizing'')\<rparr>"

definition buildThrows :: SessionScript where
  "buildThrows = onDemandThenStop\<lparr>buildResult := Inl (Error ''no results'')\<rparr>"

definition disconnected :: Summarizer where
  "disconnected = newSummarizer None None 0"

definition electedElsewhere :: Summarizer where
  "electedElsewhere = newSummarizer (Some ''client-A'') (Some ''client-B'') 0"

section \<open>Auxiliary facts\<close>

subsection \<open>Futures, the trace and dispose\<close>

lemma resolve_simps [simp]:
  "resolve v None = Some v" "resolve v (Some w) = Some w"
  by (simp_all add: resolve_def)

lemma resolve_resolve [simp]: "resolve v (resolve w d) = resolve w d"
  by (cases d) simp_all

lemma race_simps [simp]: "race None q = q" "race (Some v) q = Some v"
  by (simp_all add: race_def)

lemma emit_fields [simp]:
  "trace (emit e s) = trace s @ [e]"
  "runningSummarizer (emit e s) = runningSummarizer s"
  "systemOpListener (emit e s) = systemOpListener s"
  "opListener (emit e s) = opListener s"
  "disposed (emit e s) = disposed s"
  "stopDeferred (emit e s) = stopDeferred s"
  "clientId (emit e s) = clientId s"
  "summarizerClientId (emit e s) = summarizerClientId s"
  "initialSequenceNumber (emit e s) = initialSequenceNumber s"
  "inboundOpListeners (emit e s) = inboundOpListeners s"
  "batchEndListeners (emit e s) = batchEndListeners s"
  by (simp_all add: emit_def)

lemma stop_fields [simp]:
  "trace (stop r s) = trace s"
  "runningSummarizer (stop r s) = runningSummarizer s"
  "systemOpListener (stop r s) = systemOpListener s"
  "opListener (stop r s) = opListener s"
  "disposed (stop r s) = disposed s"
  "stopDeferred (stop r s) = resolve r (stopDeferred s)"
  "clientId (stop r s) = clientId s"
  "summarizerClientId (stop r s) = summarizerClientId s"
  "initialSequenceNumber (stop r s) = initialSequenceNumber s"
  "inboundOpListeners (stop r s) = inboundOpListeners s"
  "batchEndListeners (stop r s) = batchEndListeners s"
  by (simp_all add: stop_def)

lemma dispose_fields [simp]:
  "runningSummarizer (dispose s) = None"
  "systemOpListener (dispose s) = systemOpListener s"
  "opListener (dispose s) = opListener s"
  "disposed (dispose s) = True"
  "stopDeferred (dispose s) = resolve ''summarizerClientDisconnected'' (stopDeferred s)"
  "clientId (dispose s) = clientId s"
  "summarizerClientId (dispose s) = summarizerClientId s"
  "initialSequenceNumber (dispose s) = initialSequenceNumber s"
  "Summarizer.more (dispose s) = Summarizer.more s"
  by (simp_all add: dispose_def disposeOpListener_def disposeSystemOpListener_def
        disposeRunningSummarizer_def disposeMarkDisposed_def split: option.splits)

lemma dispose_listeners:
  "inboundOpListeners (dispose s) =
     (case systemOpListener s of None \<Rightarrow> inboundOpListeners s
      | Some l \<Rightarrow> removeListener l (inboundOpListeners s))"
  "batchEndListeners (dispose s) =
     (case opListener s of None \<Rightarrow> batchEndListeners s
      | Some l \<Rightarrow> removeListener l (batchEndListeners s))"
  by (simp_all add: dispose_def disposeOpListener_def disposeSystemOpListener_def
        disposeRunningSummarizer_def disposeMarkDisposed_def split: option.splits)

lemma dispose_trace:
  "trace (dispose s) = trace s @ executorDisposeCalls s @ listenerOffCalls s"
  by (simp add: dispose_def disposeOpListener_def disposeSystemOpListener_def
        disposeRunningSummarizer_def disposeMarkDisposed_def executorDisposeCalls_def
        listenerOffCalls_def split: option.splits)

lemma executorDisposeCalls_dispose [simp]: "executorDisposeCalls (dispose s) = []"
  by (simp add: executorDisposeCalls_def)

lemma listenerOffCalls_dispose [simp]: "listenerOffCalls (dispose s) = listenerOffCalls s"
  by (simp add: listenerOffCalls_def)

lemma filter_executorDisposeCalls [simp]:
  "filter isRsDispose (executorDisposeCalls s) = executorDisposeCalls s"
  "filter isListenerOff (executorDisposeCalls s) = []"
  by (simp_all add: executorDisposeCalls_def split: option.splits)

lemma filter_listenerOffCalls [simp]:
  "filter isRsDispose (listenerOffCalls s) = []"
  "filter isListenerOff (listenerOffCalls s) = listenerOffCalls s"
  by (simp_all add: listenerOffCalls_def split: option.splits)



lemma set_removeFirst: "set (removeFirst l xs) \<subseteq> set xs"
  by (induction xs) auto

lemma distinct_removeFirst: "distinct xs \<Longrightarrow> distinct (removeFirst l xs)"
  using set_removeFirst by (induction xs) fastforce+






lemma dispose_distinct:
  "distinct (inboundOpListeners s) \<Longrightarrow> distinct (inboundOpListeners (dispose s))"
  "distinct (batchEndListeners s) \<Longrightarrow> distinct (batchEndListeners (dispose s))"
  by (simp_all add: dispose_listeners removeListener_def distinct_removeFirst split: option.splits)










lemma stopDeferred_applyCallerEvents:
  "stopDeferred (applyCallerEvents evs s) = firstTriggered (stopDeferred s) (map Caller evs)"
proof (induction evs arbitrary: s)
  case Nil
  show ?case by (cases "stopDeferred s") simp_all
next
  case (Cons e evs)
  show ?case by (cases e; cases "stopDeferred s") (simp_all add: Cons.IH)
qed

lemma startedA_eval:
  "startedA = \<lparr>runningSummarizer = Some executor1, systemOpListener = Some 1, opListener = Some 1,
      disposed = False, stopDeferred = None, clientId = Some ''client-A'', summarizerClientId = None,
      initialSequenceNumber = 0, inboundOpListeners = [1], batchEndListeners = [1],
      trace = [RunningSummarizerEvent (Some ''client-A'') 0, RsStart ''client-A'' None,
               WaitSummaryAck 0, InboundOn 1, RuntimeOn 1]\<rparr>"
  by (simp add: startedA_def start_def clientA_def newSummarizer_def emit_def suspend_def flush_def
        handleSummaryAcks_def registerListeners_def executor1_def freshToken_def)


subsection \<open>What suspended sessions let through\<close>

lemma filter_background:
  "list_all background xs \<Longrightarrow> (\<And>e. background e \<Longrightarrow> \<not> P e) \<Longrightarrow> filter P xs = []"
  by (induction xs) auto

lemma ackWaits_append: "ackWaits (xs @ ys) = ackWaits xs @ ackWaits ys"
  by (induction xs rule: ackWaits.induct) simp_all

lemma refreshCalls_append: "refreshCalls (xs @ ys) = refreshCalls xs @ refreshCalls ys"
  by (induction xs rule: refreshCalls.induct) simp_all

lemma ackErrors_append: "ackErrors (xs @ ys) = ackErrors xs @ ackErrors ys"
  by (induction xs rule: ackErrors.induct) simp_all

lemma background_no_ack:
  "list_all background xs \<Longrightarrow> ackWaits xs = [] \<and> refreshCalls xs = [] \<and> ackErrors xs = []"
proof (induction xs)
  case Nil
  show ?case by simp
next
  case (Cons e xs)
  then show ?case by (cases e) simp_all
qed

lemma background_dispose:
  "list_all background (executorDisposeCalls s @ listenerOffCalls s)"
  by (simp add: executorDisposeCalls_def listenerOffCalls_def split: option.splits)

lemma applyCallerEvent_trace:
  "\<exists>xs. trace (applyCallerEvent e s) = trace s @ xs \<and> list_all background xs"
proof (cases e)
  case (StopCalled r)
  then show ?thesis by simp
next
  case DisposeCalled
  then show ?thesis using background_dispose [of s] by (simp add: dispose_trace)
qed

lemma applyCallerEvents_trace:
  "\<exists>xs. trace (applyCallerEvents evs s) = trace s @ xs \<and> list_all background xs"
proof (induction evs arbitrary: s)
  case Nil
  show ?case by simp
next
  case (Cons e evs)
  obtain xs where xs: "trace (applyCallerEvent e s) = trace s @ xs" "list_all background xs"
    using applyCallerEvent_trace by blast
  obtain ys where ys: "trace (applyCallerEvents evs (applyCallerEvent e s)) =
      trace (applyCallerEvent e s) @ ys" "list_all background ys"
    using Cons.IH by blast
  have "trace (applyCallerEvents (e # evs) s) = trace s @ (xs @ ys)" "list_all background (xs @ ys)"
    using xs ys by simp_all
  then show ?case by blast
qed

lemma applyCallerEvents_fields [simp]:
  "clientId (applyCallerEvents evs s) = clientId s"
  "summarizerClientId (applyCallerEvents evs s) = summarizerClientId s"
  "initialSequenceNumber (applyCallerEvents evs s) = initialSequenceNumber s"
proof (induction evs arbitrary: s)
  case Nil
  { case 1 show ?case by simp next case 2 show ?case by simp next case 3 show ?case by simp }
next
  case (Cons e evs)
  { case 1 show ?case by (cases e) (simp_all add: Cons.IH)
  next case 2 show ?case by (cases e) (simp_all add: Cons.IH)
  next case 3 show ?case by (cases e) (simp_all add: Cons.IH) }
qed

lemma applyCallerEvents_undisposed:
  "\<not> list_ex isDisposeCalled evs \<Longrightarrow>
     runningSummarizer (applyCallerEvents evs s) = runningSummarizer s
     \<and> disposed (applyCallerEvents evs s) = disposed s"
proof (induction evs arbitrary: s)
  case Nil
  show ?case by simp
next
  case (Cons e evs)
  then show ?case by (cases e) simp_all
qed

lemma applyCallerEvents_append:
  "applyCallerEvents (xs @ ys) s = applyCallerEvents ys (applyCallerEvents xs s)"
  by (induction xs arbitrary: s) simp_all


subsection \<open>The ack loop\<close>

lemma ackIteration_cursor: "fst (ackIteration it c s) = cursorAfter it c"
  by (simp add: ackIteration_def cursorAfter_def Let_def split: sum.splits)

lemma ackIteration_state:
  "snd (ackIteration it c s) =
     (case ackResult it of
        Inl err \<Rightarrow>
          emit (ErrorEvent ''HandleSummaryAckError'' c)
            (applyCallerEvents (duringAckWait it) (emit (WaitSummaryAck c) s))
      | Inr ack \<Rightarrow>
          (case refreshResult it of
             Inl err \<Rightarrow>
               emit (ErrorEvent ''HandleSummaryAckError'' (referenceSequenceNumber ack))
                 (applyCallerEvents (duringRefresh it)
                    (emit (RefreshLatestSummaryAck (summaryOpHandle ack) (summaryAckHandle ack)
                             (referenceSequenceNumber ack))
                       (applyCallerEvents (duringAckWait it) (emit (WaitSummaryAck c) s))))
           | Inr u \<Rightarrow>
               applyCallerEvents (duringRefresh it)
                 (emit (RefreshLatestSummaryAck (summaryOpHandle ack) (summaryAckHandle ack)
                          (referenceSequenceNumber ack))
                    (applyCallerEvents (duringAckWait it) (emit (WaitSummaryAck c) s)))))"
  by (simp add: ackIteration_def Let_def split: sum.splits)

lemma ackProj_applyCallerEvents [simp]:
  "ackWaits (trace (applyCallerEvents evs s)) = ackWaits (trace s)"
  "refreshCalls (trace (applyCallerEvents evs s)) = refreshCalls (trace s)"
  "ackErrors (trace (applyCallerEvents evs s)) = ackErrors (trace s)"
proof -
  obtain xs where "trace (applyCallerEvents evs s) = trace s @ xs" "list_all background xs"
    using applyCallerEvents_trace by blast
  then show "ackWaits (trace (applyCallerEvents evs s)) = ackWaits (trace s)"
    "refreshCalls (trace (applyCallerEvents evs s)) = refreshCalls (trace s)"
    "ackErrors (trace (applyCallerEvents evs s)) = ackErrors (trace s)"
    by (simp_all add: ackWaits_append refreshCalls_append ackErrors_append background_no_ack)
qed

lemma ackIteration_waits:
  "ackWaits (trace (snd (ackIteration it c s))) = ackWaits (trace s) @ [c]"
  by (simp add: ackIteration_state ackWaits_append split: sum.splits)

lemma ackIteration_refreshes:
  "refreshCalls (trace (snd (ackIteration it c s))) =
     refreshCalls (trace s) @ receivedAcks [it]"
  by (simp add: ackIteration_state refreshCalls_append split: sum.splits)

lemma ackIteration_errors:
  "ackErrors (trace (snd (ackIteration it c s))) = ackErrors (trace s) @ failureCursors [it] c"
  by (simp add: ackIteration_state ackErrors_append failureCursor_def split: sum.splits)

lemma ackIteration_attached:
  "undisturbed it \<Longrightarrow> runningSummarizer (snd (ackIteration it c s)) = runningSummarizer s"
  by (simp add: ackIteration_state undisturbed_def iterEvents_def applyCallerEvents_undisposed
        split: sum.splits)

lemma receivedAcks_Cons: "receivedAcks (it # script) = receivedAcks [it] @ receivedAcks script"
  by (simp split: sum.splits)

lemma failureCursors_Cons:
  "failureCursors (it # script) c = failureCursors [it] c @ failureCursors script (cursorAfter it c)"
  by (simp split: option.splits)

lemma handleSummaryAcksFrom_step:
  "runningSummarizer s = Some rs \<Longrightarrow>
     handleSummaryAcksFrom (it # script) c s =
       handleSummaryAcksFrom script (cursorAfter it c) (snd (ackIteration it c s))"
  using ackIteration_cursor [of it c s] by (cases "ackIteration it c s") simp

lemma cursors_nonempty [simp]: "cursors script c \<noteq> []"
  by (cases script) simp_all

lemma ack_loop_runs:
  assumes "list_all undisturbed script" and "runningSummarizer s = Some rs"
  shows "fst (handleSummaryAcksFrom script c s) = LoopWaiting (last (cursors script c))
     \<and> ackWaits (trace (snd (handleSummaryAcksFrom script c s))) = ackWaits (trace s) @ cursors script c
     \<and> refreshCalls (trace (snd (handleSummaryAcksFrom script c s))) =
         refreshCalls (trace s) @ receivedAcks script
     \<and> ackErrors (trace (snd (handleSummaryAcksFrom script c s))) =
         ackErrors (trace s) @ failureCursors script c"
  using assms
proof (induction script arbitrary: c s)
  case Nil
  then show ?case by (simp add: ackWaits_append refreshCalls_append ackErrors_append)
next
  case (Cons it script)
  let ?s = "snd (ackIteration it c s)"
  have att: "runningSummarizer ?s = Some rs"
    using Cons.prems by (simp add: ackIteration_attached)
  have und: "list_all undisturbed script"
    using Cons.prems by simp
  note ih = Cons.IH [OF und att, of "cursorAfter it c"]
  have step: "handleSummaryAcksFrom (it # script) c s =
      handleSummaryAcksFrom script (cursorAfter it c) ?s"
    using Cons.prems(2) by (rule handleSummaryAcksFrom_step)
  show ?case
    unfolding step
    using ih
    by (simp add: ackIteration_waits ackIteration_refreshes ackIteration_errors
          receivedAcks_Cons [of it script] failureCursors_Cons [of it script]
          del: receivedAcks.simps failureCursors.simps)
qed


lemma applyCallerEvents_closed:
  "disposed (applyCallerEvents evs s) = (disposed s \<or> list_ex isDisposeCalled evs)"
  "runningSummarizer (applyCallerEvents evs s) =
     (if list_ex isDisposeCalled evs then None else runningSummarizer s)"
proof (induction evs arbitrary: s)
  case Nil
  { case 1 show ?case by simp next case 2 show ?case by simp }
next
  case (Cons e evs)
  { case 1 show ?case by (cases e) (simp_all add: Cons.IH)
  next case 2 show ?case by (cases e) (simp_all add: Cons.IH) }
qed

lemma firstTriggered_append:
  "firstTriggered (firstTriggered d xs) ys = firstTriggered d (xs @ ys)"
  by (cases d; cases xs) simp_all

lemma ackIteration_fields:
  "stopDeferred (snd (ackIteration it c s)) = stopDeferred (applyCallerEvents (iterEvents it) s)"
  "disposed (snd (ackIteration it c s)) = disposed (applyCallerEvents (iterEvents it) s)"
  "runningSummarizer (snd (ackIteration it c s)) =
     runningSummarizer (applyCallerEvents (iterEvents it) s)"
  by (simp_all add: ackIteration_state iterEvents_def stopDeferred_applyCallerEvents
        applyCallerEvents_closed applyCallerEvents_append firstTriggered_append split: sum.splits)

lemma fourAcks_facts:
  "list_all undisturbed fourAcks"
  "receivedAcks fourAcks = [5, 5, 9, 20]"
  "cursors fourAcks 0 = [0, 6, 6, 10, 21]"
  "failureCursors fourAcks 0 = [9]"
  by (simp_all add: fourAcks_def ackOf_def undisturbed_def iterEvents_def cursorAfter_def
        failureCursor_def)

lemma attachedA_facts:
  "runningSummarizer attachedA = Some executor1"
  "initialSequenceNumber attachedA = 0"
  "trace attachedA = []"
  "stopDeferred attachedA = None"
  "disposed attachedA = False"
  by (simp_all add: attachedA_def clientA_def newSummarizer_def)


subsection \<open>Sessions\<close>

lemma settle_fields [simp]:
  "summarizer (settle ss) = summarizer ss"
  "runCoordinator (settle ss) = runCoordinator ss"
  by (simp_all add: settle_def split: StopRace.splits option.splits)

lemma flush_fields [simp]:
  "runCoordinator (flush ss) = runCoordinator ss"
  "winner (stopP (flush ss)) = winner (stopP ss)"
  "(stopP (flush ss) = NotStarted) = (stopP ss = NotStarted)"
  "runningSummarizer (summarizer (flush ss)) = runningSummarizer (summarizer ss)"
  "systemOpListener (summarizer (flush ss)) = systemOpListener (summarizer ss)"
  "opListener (summarizer (flush ss)) = opListener (summarizer ss)"
  "disposed (summarizer (flush ss)) = disposed (summarizer ss)"
  "stopDeferred (summarizer (flush ss)) = stopDeferred (summarizer ss)"
  "clientId (summarizer (flush ss)) = clientId (summarizer ss)"
  "summarizerClientId (summarizer (flush ss)) = summarizerClientId (summarizer ss)"
  "initialSequenceNumber (summarizer (flush ss)) = initialSequenceNumber (summarizer ss)"
  by (simp_all add: flush_def split: StopRace.splits option.splits)

lemma flush_trace:
  "\<exists>xs. trace (summarizer (flush ss)) = trace (summarizer ss) @ xs \<and> list_all background xs"
  by (simp add: flush_def split: StopRace.splits option.splits)

lemma winner_Some: "winner p = Some r \<Longrightarrow> \<exists>t. p = Won r t"
  by (cases p) simp_all

lemma raceOk_flush [simp]: "raceOk (flush ss) = raceOk ss"
  by (simp add: raceOk_def)

lemma applyCallerEvent_fields [simp]:
  "clientId (applyCallerEvent ce s) = clientId s"
  "summarizerClientId (applyCallerEvent ce s) = summarizerClientId s"
  "initialSequenceNumber (applyCallerEvent ce s) = initialSequenceNumber s"
  "stopDeferred (applyCallerEvent ce s) = resolve (eventReason (Caller ce)) (stopDeferred s)"
  "systemOpListener (applyCallerEvent ce s) = systemOpListener s"
  "opListener (applyCallerEvent ce s) = opListener s"
  by (cases ce; simp)+

lemma applyEvent_fields [simp]:
  "clientId (summarizer (applyEvent e ss)) = clientId (summarizer ss)"
  "summarizerClientId (summarizer (applyEvent e ss)) = summarizerClientId (summarizer ss)"
  "initialSequenceNumber (summarizer (applyEvent e ss)) = initialSequenceNumber (summarizer ss)"
  "systemOpListener (summarizer (applyEvent e ss)) = systemOpListener (summarizer ss)"
  "opListener (summarizer (applyEvent e ss)) = opListener (summarizer ss)"
  by (cases e; simp)+


lemma applyEvent_cancelled:
  "cancelled (runCoordinator (applyEvent e ss)) = (cancelled (runCoordinator ss) \<or> isTokenCancelled e)"
  by (cases e) (simp_all add: coordinatorStop_def)

lemma applyEvent_trace:
  "\<exists>xs. trace (summarizer (applyEvent e ss)) = trace (summarizer ss) @ xs \<and> list_all background xs"
proof (cases e)
  case (Caller ce)
  let ?ss = "settle (ss\<lparr>summarizer := applyCallerEvent ce (summarizer ss)\<rparr>)"
  obtain xs where xs: "trace (applyCallerEvent ce (summarizer ss)) = trace (summarizer ss) @ xs"
      "list_all background xs"
    using applyCallerEvent_trace by blast
  obtain ys where ys: "trace (summarizer (flush ?ss)) = trace (summarizer ?ss) @ ys"
      "list_all background ys"
    using flush_trace by blast
  have "trace (summarizer (applyEvent e ss)) = trace (summarizer ss) @ (xs @ ys)"
    "list_all background (xs @ ys)"
    using Caller xs ys by simp_all
  then show ?thesis by blast
next
  case (TokenCancelled r)
  let ?ss = "settle (ss\<lparr>runCoordinator := coordinatorStop r (runCoordinator ss)\<rparr>)"
  obtain ys where ys: "trace (summarizer (flush ?ss)) = trace (summarizer ?ss) @ ys"
      "list_all background ys"
    using flush_trace by blast
  then show ?thesis using TokenCancelled by auto
qed

lemma applyEvent_race:
  assumes "raceOk ss"
  shows "raceOk (applyEvent e ss) \<and> winner (stopP (applyEvent e ss)) = firstTriggered (winner (stopP ss)) [e]"
proof (cases "stopP ss")
  case NotStarted
  with assms show ?thesis by (simp add: raceOk_def)
next
  case (Won r t)
  then show ?thesis
    by (cases e) (simp_all add: raceOk_def settle_def)
next
  case (Waiting t)
  with assms have p: "stopDeferred (summarizer ss) = None" "waitCancelled (runCoordinator ss) = None"
    by (simp_all add: raceOk_def)
  show ?thesis
  proof (cases e)
    case (Caller ce)
    then show ?thesis using Waiting p
      by (simp add: raceOk_def settle_def)
  next
    case (TokenCancelled r)
    then show ?thesis using Waiting p
      by (simp add: raceOk_def settle_def coordinatorStop_def)
  qed
qed

lemma applyEvents_fields [simp]:
  "clientId (summarizer (applyEvents evs ss)) = clientId (summarizer ss)"
  "summarizerClientId (summarizer (applyEvents evs ss)) = summarizerClientId (summarizer ss)"
  "initialSequenceNumber (summarizer (applyEvents evs ss)) = initialSequenceNumber (summarizer ss)"
  "systemOpListener (summarizer (applyEvents evs ss)) = systemOpListener (summarizer ss)"
  "opListener (summarizer (applyEvents evs ss)) = opListener (summarizer ss)"
  by (induction evs arbitrary: ss; simp)+


lemma applyEvents_cancelled:
  "cancelled (runCoordinator (applyEvents evs ss)) = (cancelled (runCoordinator ss) \<or> tokenTriggered evs)"
  by (induction evs arbitrary: ss) (auto simp: applyEvent_cancelled tokenTriggered_def)

lemma applyEvents_trace:
  "\<exists>xs. trace (summarizer (applyEvents evs ss)) = trace (summarizer ss) @ xs \<and> list_all background xs"
proof (induction evs arbitrary: ss)
  case Nil
  show ?case by simp
next
  case (Cons e evs)
  obtain xs where xs: "trace (summarizer (applyEvent e ss)) = trace (summarizer ss) @ xs"
      "list_all background xs"
    using applyEvent_trace by blast
  obtain ys where ys: "trace (summarizer (applyEvents evs (applyEvent e ss))) =
      trace (summarizer (applyEvent e ss)) @ ys" "list_all background ys"
    using Cons.IH by blast
  have "trace (summarizer (applyEvents (e # evs) ss)) = trace (summarizer ss) @ (xs @ ys)"
    "list_all background (xs @ ys)"
    using xs ys by simp_all
  then show ?case by blast
qed

lemma applyEvents_race:
  "raceOk ss \<Longrightarrow>
     raceOk (applyEvents evs ss)
     \<and> winner (stopP (applyEvents evs ss)) = firstTriggered (winner (stopP ss)) evs"
proof (induction evs arbitrary: ss)
  case Nil
  then show ?case by (cases "winner (stopP ss)") simp_all
next
  case (Cons e evs)
  note step = applyEvent_race [OF Cons.prems, of e]
  from step have ok: "raceOk (applyEvent e ss)" by blast
  have "firstTriggered (firstTriggered (winner (stopP ss)) [e]) evs =
      firstTriggered (winner (stopP ss)) (e # evs)"
    using firstTriggered_append [of "winner (stopP ss)" "[e]" evs] by simp
  then show ?case using Cons.IH [OF ok] step by simp
qed




lemma suspend_cancelled:
  "cancelled (runCoordinator (suspend evs ss)) = (cancelled (runCoordinator ss) \<or> tokenTriggered evs)"
  by (simp add: suspend_def applyEvents_cancelled)

lemma suspend_trace:
  "\<exists>xs. trace (summarizer (suspend evs ss)) = trace (summarizer ss) @ xs \<and> list_all background xs"
proof -
  obtain xs where xs: "trace (summarizer (flush ss)) = trace (summarizer ss) @ xs"
      "list_all background xs"
    using flush_trace by blast
  obtain ys where ys: "trace (summarizer (applyEvents evs (flush ss))) =
      trace (summarizer (flush ss)) @ ys" "list_all background ys"
    using applyEvents_trace by blast
  have "trace (summarizer (suspend evs ss)) = trace (summarizer ss) @ (xs @ ys)"
    "list_all background (xs @ ys)"
    using xs ys by (simp_all add: suspend_def)
  then show ?thesis by blast
qed

lemma suspend_race:
  "raceOk ss \<Longrightarrow>
     raceOk (suspend evs ss)
     \<and> winner (stopP (suspend evs ss)) = firstTriggered (winner (stopP ss)) evs"
  using applyEvents_race [of "flush ss" evs] by (simp add: suspend_def)

lemma suspend_filter:
  assumes "\<And>e. background e \<Longrightarrow> \<not> P e"
  shows "filter P (trace (summarizer (suspend evs ss))) = filter P (trace (summarizer ss))"
proof -
  obtain xs where "trace (summarizer (suspend evs ss)) = trace (summarizer ss) @ xs"
      "list_all background xs"
    using suspend_trace by blast
  then show ?thesis using filter_background [of xs P] assms by simp
qed

lemma flush_filter:
  assumes "\<And>e. background e \<Longrightarrow> \<not> P e"
  shows "filter P (trace (summarizer (flush ss))) = filter P (trace (summarizer ss))"
proof -
  obtain xs where "trace (summarizer (flush ss)) = trace (summarizer ss) @ xs"
      "list_all background xs"
    using flush_trace by blast
  then show ?thesis using filter_background [of xs P] assms by simp
qed

lemma applyCallerEvents_filter:
  assumes "\<And>e. background e \<Longrightarrow> \<not> P e"
  shows "filter P (trace (applyCallerEvents evs s)) = filter P (trace s)"
proof -
  obtain xs where "trace (applyCallerEvents evs s) = trace s @ xs" "list_all background xs"
    using applyCallerEvents_trace by blast
  then show ?thesis using filter_background [of xs P] assms by simp
qed

lemma dispose_filter:
  assumes "\<And>e. background e \<Longrightarrow> \<not> P e"
  shows "filter P (trace (dispose s)) = filter P (trace s)"
  using filter_background [OF background_dispose, of P s] assms by (simp add: dispose_trace)

lemma background_not:
  "background e \<Longrightarrow> \<not> isTeardownCall e"
  "background e \<Longrightarrow> \<not> isStartCall e"
  "background e \<Longrightarrow> \<not> isAsyncWork e"
  "background e \<Longrightarrow> \<not> isCloseFn e"
  by (cases e; simp)+

lemmas quiet_filters [simp] =
  suspend_filter [of isTeardownCall, OF background_not(1)]
  suspend_filter [of isStartCall, OF background_not(2)]
  suspend_filter [of isAsyncWork, OF background_not(3)]
  suspend_filter [of isCloseFn, OF background_not(4)]
  flush_filter [of isTeardownCall, OF background_not(1)]
  flush_filter [of isStartCall, OF background_not(2)]
  flush_filter [of isAsyncWork, OF background_not(3)]
  flush_filter [of isCloseFn, OF background_not(4)]
  applyCallerEvents_filter [of isTeardownCall, OF background_not(1)]
  applyCallerEvents_filter [of isStartCall, OF background_not(2)]
  applyCallerEvents_filter [of isAsyncWork, OF background_not(3)]
  applyCallerEvents_filter [of isCloseFn, OF background_not(4)]
  dispose_filter [of isTeardownCall, OF background_not(1)]
  dispose_filter [of isStartCall, OF background_not(2)]
  dispose_filter [of isAsyncWork, OF background_not(3)]
  dispose_filter [of isCloseFn, OF background_not(4)]

subsection \<open>start\<close>

lemma attach_fields [simp]:
  "runningSummarizer (registerListeners rs (snd (handleSummaryAcks [] (s\<lparr>runningSummarizer := Some rs\<rparr>)))) = Some rs"
  "systemOpListener (registerListeners rs (snd (handleSummaryAcks [] (s\<lparr>runningSummarizer := Some rs\<rparr>)))) = Some (rsId rs)"
  "opListener (registerListeners rs (snd (handleSummaryAcks [] (s\<lparr>runningSummarizer := Some rs\<rparr>)))) = Some (rsId rs)"
  "disposed (registerListeners rs (snd (handleSummaryAcks [] (s\<lparr>runningSummarizer := Some rs\<rparr>)))) = disposed s"
  "stopDeferred (registerListeners rs (snd (handleSummaryAcks [] (s\<lparr>runningSummarizer := Some rs\<rparr>)))) = stopDeferred s"
  "clientId (registerListeners rs (snd (handleSummaryAcks [] (s\<lparr>runningSummarizer := Some rs\<rparr>)))) = clientId s"
  "summarizerClientId (registerListeners rs (snd (handleSummaryAcks [] (s\<lparr>runningSummarizer := Some rs\<rparr>)))) = summarizerClientId s"
  "initialSequenceNumber (registerListeners rs (snd (handleSummaryAcks [] (s\<lparr>runningSummarizer := Some rs\<rparr>)))) = initialSequenceNumber s"
  "trace (registerListeners rs (snd (handleSummaryAcks [] (s\<lparr>runningSummarizer := Some rs\<rparr>)))) =
     trace s @ [WaitSummaryAck (initialSequenceNumber s), InboundOn (rsId rs), RuntimeOn (rsId rs)]"
  by (simp_all add: registerListeners_def handleSummaryAcks_def Let_def)

lemma start_no_client:
  "clientId (summarizer ss) = None \<Longrightarrow>
     start started evs onBehalfOf options ss =
       (Inl (Error ''clientId should be defined if connected.''),
        flush (ss\<lparr>summarizer := emit (RunningSummarizerEvent onBehalfOf
                  (initialSequenceNumber (summarizer ss))) (summarizer ss)\<rparr>))"
  by (simp add: start_def)

lemma start_failed:
  "clientId (summarizer ss) = Some cid \<Longrightarrow>
     start (Inl err) evs onBehalfOf options ss =
       (Inl err,
        suspend evs (ss\<lparr>summarizer := emit (RsStart cid options)
          (emit (RunningSummarizerEvent onBehalfOf (initialSequenceNumber (summarizer ss)))
             (summarizer ss))\<rparr>))"
  by (simp add: start_def)

lemma start_attached:
  "clientId (summarizer ss) = Some cid \<Longrightarrow>
     start (Inr rs) evs onBehalfOf options ss =
       (Inr rs,
        (suspend evs (ss\<lparr>summarizer := emit (RsStart cid options)
          (emit (RunningSummarizerEvent onBehalfOf (initialSequenceNumber (summarizer ss)))
             (summarizer ss))\<rparr>))
        \<lparr>summarizer := registerListeners rs (snd (handleSummaryAcks []
           ((summarizer (suspend evs (ss\<lparr>summarizer := emit (RsStart cid options)
              (emit (RunningSummarizerEvent onBehalfOf (initialSequenceNumber (summarizer ss)))
                 (summarizer ss))\<rparr>)))\<lparr>runningSummarizer := Some rs\<rparr>)))\<rparr>)"
  by (simp add: start_def Let_def)


subsection \<open>run\<close>

lemma startRace_fields [simp]:
  "summarizer (startRace b t ss) = summarizer ss"
  "runCoordinator (startRace b t ss) = runCoordinator ss"
  by (simp_all add: startRace_def Let_def split: option.splits)

lemma startRace_winner:
  "winner (stopP (startRace b t ss)) =
     (if b then race (waitCancelled (runCoordinator ss)) (stopDeferred (summarizer ss))
      else race (stopDeferred (summarizer ss)) (waitCancelled (runCoordinator ss)))"
  "raceOk (startRace b t ss)"
  by (auto simp: startRace_def Let_def raceOk_def race_def split: option.splits)

lemma raceOk_summarizer:
  "raceOk ss \<Longrightarrow> stopDeferred s' = stopDeferred (summarizer ss) \<Longrightarrow> raceOk (ss\<lparr>summarizer := s'\<rparr>)"
  by (simp add: raceOk_def)

lemma start_filter:
  assumes "\<And>e. background e \<Longrightarrow> \<not> P e" and "\<And>e. isStartCall e \<Longrightarrow> \<not> P e"
    and "\<And>b n. \<not> P (RunningSummarizerEvent b n)" and "\<And>n. \<not> P (WaitSummaryAck n)"
  shows "filter P (trace (summarizer (snd (start st evs ob opts ss)))) = filter P (trace (summarizer ss))"
proof (cases "clientId (summarizer ss)")
  case None
  then show ?thesis using assms by (simp add: start_no_client flush_filter)
next
  case (Some cid)
  show ?thesis
  proof (cases st)
    case (Inl err)
    then show ?thesis using Some assms by (simp add: start_failed suspend_filter)
  next
    case (Inr rs)
    then show ?thesis using Some assms by (simp add: start_attached suspend_filter)
  qed
qed

lemma prod_sum_case:
  "(case p of (Inl e, x) \<Rightarrow> A e x | (Inr r, x) \<Rightarrow> B r x) =
     (case fst p of Inl e \<Rightarrow> A e (snd p) | Inr r \<Rightarrow> B r (snd p))"
  by (cases p; cases "fst p") auto

lemma start_result:
  "fst (start st evs ob opts ss) =
     (case clientId (summarizer ss) of
        None \<Rightarrow> Inl (Error ''clientId should be defined if connected.'')
      | Some cid \<Rightarrow> st)"
  by (simp add: start_def Let_def split: option.splits sum.splits)

lemma runCore_closeFn:
  "filter isCloseFn (trace (snd (runCore sc ob opts s))) = filter isCloseFn (trace s)"
proof -
  have start: "filter isCloseFn (trace (summarizer (snd (start st evs b opts ss)))) =
      filter isCloseFn (trace (summarizer ss))" for st evs b ss
    by (rule start_filter) (auto elim: background.elims isStartCall.elims)
  show ?thesis
    unfolding runCore_def Let_def prod_sum_case
    by (simp add: start callWaitStop_def callCoordinatorStop_def
          split: sum.splits option.splits StopRace.splits)
qed


lemma tokenTriggered_append [simp]:
  "tokenTriggered (xs @ ys) = (tokenTriggered xs \<or> tokenTriggered ys)"
  by (simp add: tokenTriggered_def)

lemma run_settled:
  assumes tok: "createResult sc = Inr tok" "\<not> cancelled tok" "waitCancelled tok = None"
    and cid: "clientId s = Some cid"
    and rs: "startResult sc = Inr rs"
    and ws: "waitStopResult sc = Inr u"
    and first: "firstTriggered (stopDeferred s)
        (map Caller (duringCreate sc) @ duringStart sc @ duringStopWait sc) = Some reason"
  shows "fst (run sc ob opts s) = Returned reason"
    and "filter isTeardownCall (trace (snd (run sc ob opts s))) =
           filter isTeardownCall (trace s) @
           [RsWaitStop (rsId rs) (\<not> tokenTriggered (duringStart sc @ duringStopWait sc)),
            CoordinatorStop reason, CloseFn]"
proof -
  let ?s1 = "applyCallerEvents (duringCreate sc) (emit CoordinatorCreate s)"
  let ?ss0 = "startRace True (Some ob) \<lparr>summarizer = ?s1, runCoordinator = tok, stopP = NotStarted\<rparr>"
  let ?ssB = "?ss0\<lparr>summarizer := emit (RsStart cid opts)
      (emit (RunningSummarizerEvent (Some ob) (initialSequenceNumber (summarizer ?ss0)))
         (summarizer ?ss0))\<rparr>"
  let ?ssA = "suspend (duringStart sc) ?ssB"
  let ?ss1 = "?ssA\<lparr>summarizer := registerListeners rs (snd (handleSummaryAcks []
      ((summarizer ?ssA)\<lparr>runningSummarizer := Some rs\<rparr>)))\<rparr>"
  let ?ss2 = "suspend (duringStopWait sc) ?ss1"
  have cid0: "clientId (summarizer ?ss0) = Some cid"
    using cid by simp
  have start: "start (startResult sc) (duringStart sc) (Some ob) opts ?ss0 = (Inr rs, ?ss1)"
    unfolding rs by (rule start_attached [OF cid0])
  have w0: "winner (stopP ?ss0) = firstTriggered (stopDeferred s) (map Caller (duringCreate sc))"
    using tok by (simp add: startRace_winner stopDeferred_applyCallerEvents)
  have okB: "raceOk ?ssB"
    by (rule raceOk_summarizer) (simp_all add: startRace_winner)
  have wB: "winner (stopP ?ssB) = winner (stopP ?ss0)"
    by simp
  note A = suspend_race [OF okB, of "duringStart sc"]
  have ok1: "raceOk ?ss1"
    using A by (simp add: raceOk_def)
  have w1: "winner (stopP ?ss1) =
      firstTriggered (stopDeferred s) (map Caller (duringCreate sc) @ duringStart sc)"
    using A wB w0 by (simp add: firstTriggered_append)
  note B = suspend_race [OF ok1, of "duringStopWait sc"]
  have "winner (stopP ?ss2) = Some reason"
    using B w1 first by (simp add: firstTriggered_append)
  then obtain t where won: "stopP ?ss2 = Won reason t"
    using winner_Some by blast
  have c1: "cancelled (runCoordinator ?ss1) = tokenTriggered (duringStart sc)"
    using tok by (simp add: suspend_cancelled)
  have c2: "cancelled (runCoordinator ?ss2) = tokenTriggered (duringStart sc @ duringStopWait sc)"
    using c1 by (simp add: suspend_cancelled)
  let ?flag = "\<not> tokenTriggered (duringStart sc @ duringStopWait sc)"
  let ?ss3 = "suspend (duringWaitStop sc) (callWaitStop rs ?flag ?ss2)"
  have core: "runCore sc ob opts s = (Some (Inr reason), summarizer (callCoordinatorStop reason ?ss3))"
    unfolding runCore_def Let_def tok(1) sum.case start prod.case
    using tok(2) won c2 ws by simp
  have f2: "filter isTeardownCall (trace (summarizer ?ss2)) = filter isTeardownCall (trace s)"
    by simp
  have f3: "filter isTeardownCall (trace (summarizer (callCoordinatorStop reason ?ss3))) =
      filter isTeardownCall (trace s) @ [RsWaitStop (rsId rs) ?flag, CoordinatorStop reason]"
    using f2 by (simp add: callCoordinatorStop_def callWaitStop_def)
  show "fst (run sc ob opts s) = Returned reason"
    by (simp add: run_def core)
  show "filter isTeardownCall (trace (snd (run sc ob opts s))) =
           filter isTeardownCall (trace s) @ [RsWaitStop (rsId rs) ?flag, CoordinatorStop reason, CloseFn]"
    using f3 by (simp add: run_def core runFinally_def)
qed


lemma clientA_facts:
  "clientId clientA = Some ''client-A''"
  "summarizerClientId clientA = None"
  "stopDeferred clientA = None"
  "trace clientA = []"
  "runningSummarizer clientA = None"
  "disposed clientA = False"
  "systemOpListener clientA = None"
  "opListener clientA = None"
  by (simp_all add: clientA_def newSummarizer_def)

lemma connectivityLoss_facts:
  "createResult connectivityLoss = Inr freshToken"
  "duringCreate connectivityLoss = []"
  "startResult connectivityLoss = Inr executor1"
  "duringStart connectivityLoss = []"
  "duringStopWait connectivityLoss = [TokenCancelled ''connectivityLoss'']"
  "waitStopResult connectivityLoss = Inr ()"
  "\<not> cancelled freshToken"
  "waitCancelled freshToken = None"
  by (simp_all add: connectivityLoss_def freshToken_def)


lemma creationFails_facts:
  "createResult creationFails = Inl (Error ''no connection'')"
  "duringCreate creationFails = []"
  by (simp_all add: creationFails_def)

lemma runCore_create_failed:
  "createResult sc = Inl err \<Longrightarrow>
     runCore sc ob opts s =
       (Some (Inl err), applyCallerEvents (duringCreate sc) (emit CoordinatorCreate s))"
  by (simp add: runCore_def Let_def)

lemma runCore_start_failed:
  assumes "createResult sc = Inr tok" and "\<not> cancelled tok"
    and "clientId s = None \<and> err = Error ''clientId should be defined if connected.''
         \<or> clientId s \<noteq> None \<and> startResult sc = Inl err"
  shows "fst (runCore sc ob opts s) = Some (Inl err)"
proof -
  let ?ss = "startRace True (Some ob)
      \<lparr>summarizer = applyCallerEvents (duringCreate sc) (emit CoordinatorCreate s),
       runCoordinator = tok, stopP = NotStarted\<rparr>"
  have "fst (start (startResult sc) (duringStart sc) (Some ob) opts ?ss) = Inl err"
    using assms(3) by (auto simp: start_result)
  then show ?thesis
    unfolding runCore_def Let_def prod_sum_case using assms(1,2) by simp
qed

lemma run_completed:
  "fst (run sc ob opts s) \<noteq> Hung \<Longrightarrow>
     \<exists>s1. snd (run sc ob opts s) = runFinally s1
       \<and> filter isCloseFn (trace s1) = filter isCloseFn (trace s)"
proof -
  assume a: "fst (run sc ob opts s) \<noteq> Hung"
  obtain r s0 where core: "runCore sc ob opts s = (r, s0)"
    by (cases "runCore sc ob opts s")
  have f: "filter isCloseFn (trace s0) = filter isCloseFn (trace s)"
    using runCore_closeFn [of sc ob opts s] core by simp
  show ?thesis
  proof (cases r)
    case None
    with a core show ?thesis by (simp add: run_def)
  next
    case (Some res)
    show ?thesis
    proof (cases res)
      case (Inl err)
      let ?x = "emit (WrapErrorLogged ''summarizerRun'') (stop ''summarizerException'' s0)"
      have "snd (run sc ob opts s) = runFinally ?x"
        "filter isCloseFn (trace ?x) = filter isCloseFn (trace s)"
        using Inl Some core f by (simp_all add: run_def wrap_def)
      then show ?thesis by blast
    next
      case (Inr reason)
      have "snd (run sc ob opts s) = runFinally s0"
        using Inr Some core by (simp add: run_def)
      with f show ?thesis by blast
    qed
  qed
qed


subsection \<open>summarizeOnDemand\<close>

lemma rethrowWrapped_eq:
  "rethrowWrapped err s =
     (Inl (newSummarizingWarning (message err) ''summarizerRun'' False),
      emit (WrapErrorLogged ''summarizerRun'') s)"
  by (simp add: rethrowWrapped_def wrap_def)

lemma summarizeOnDemand_rejected:
  "disposed s \<or> (summarizerClientId s \<noteq> None \<and> summarizerClientId s \<noteq> clientId s) \<Longrightarrow>
     \<exists>msg. summarizeOnDemand sc args s =
       (Inl (newSummarizingWarning msg ''summarizerRun'' False),
        emit (WrapErrorLogged ''summarizerRun'') s)"
  by (auto simp: summarizeOnDemand_def rethrowWrapped_eq)

lemma summarizeOnDemand_fast:
  "\<not> disposed s \<Longrightarrow> \<not> (summarizerClientId s \<noteq> None \<and> summarizerClientId s \<noteq> clientId s) \<Longrightarrow>
   runningSummarizer s = Some rs \<Longrightarrow> \<not> rsDisposed rs \<Longrightarrow>
     summarizeOnDemand sc args s =
       (case attachedOnDemand sc of
          Inl err \<Rightarrow>
            (Inl (newSummarizingWarning (message err) ''summarizerRun'' False),
             emit (WrapErrorLogged ''summarizerRun'') (emit (RsSummarizeOnDemand (rsId rs) args) s))
        | Inr u \<Rightarrow>
            (Inr (newBuilder\<lparr>summarizerStarted := Some Success\<rparr>),
             emit (RsSummarizeOnDemand (rsId rs) args) s))"
  by (auto simp: summarizeOnDemand_def newBuilder_def rethrowWrapped_eq split: sum.splits)

lemma summarizeOnDemand_slow:
  "\<not> disposed s \<Longrightarrow> \<not> (summarizerClientId s \<noteq> None \<and> summarizerClientId s \<noteq> clientId s) \<Longrightarrow>
   \<not> executorLive s \<Longrightarrow> summarizeOnDemand sc args s = onDemandStart sc args s"
  by (auto simp: summarizeOnDemand_def executorLive_def split: option.splits)

lemma onDemandStart_factory_throws:
  "factoryThrows sc = Some err \<Longrightarrow>
     onDemandStart sc args s =
       (Inl (newSummarizingWarning (message err) ''summarizerRun'' False),
        emit (WrapErrorLogged ''summarizerRun'')
          (emit CoordinatorCreate (s\<lparr>runningSummarizer := None\<rparr>)))"
  by (simp add: onDemandStart_def Let_def rethrowWrapped_eq)

lemma onDemandStart_build_throws:
  "factoryThrows sc = None \<Longrightarrow> buildResult sc = Inl err \<Longrightarrow>
     onDemandStart sc args s =
       (Inl (newSummarizingWarning (message err) ''summarizerRun'' False),
        snd (onDemandBootstrap sc args newBuilder
          (emit (WrapErrorLogged ''summarizerRun'')
             (emit CoordinatorCreate (s\<lparr>runningSummarizer := None\<rparr>)))))"
  by (simp add: onDemandStart_def Let_def rethrowWrapped_eq)

lemma onDemandStart_returns:
  "factoryThrows sc = None \<Longrightarrow> buildResult sc = Inr u \<Longrightarrow>
     onDemandStart sc args s =
       (Inr (fst (onDemandBootstrap sc args newBuilder
               (emit CoordinatorCreate (s\<lparr>runningSummarizer := None\<rparr>)))),
        snd (onDemandBootstrap sc args newBuilder
               (emit CoordinatorCreate (s\<lparr>runningSummarizer := None\<rparr>))))"
  by (simp add: onDemandStart_def Let_def split: prod.splits)

lemma factoryThrows_simps:
  "createResult sc = Inr tok \<Longrightarrow> factoryThrows sc = None"
  "createResult sc = Inl err \<Longrightarrow> \<not> createThrows sc \<Longrightarrow> factoryThrows sc = None"
  "createResult sc = Inl err \<Longrightarrow> createThrows sc \<Longrightarrow> factoryThrows sc = Some err"
  by (simp_all add: factoryThrows_def)

lemma onDemandBootstrap_create_failed:
  "createResult sc = Inl err \<Longrightarrow>
     onDemandBootstrap sc args b s =
       (fail ''Failed to create cancellation token'' err b,
        applyCallerEvents (duringCreate sc) s)"
  by (simp add: onDemandBootstrap_def Let_def)

lemma onDemandBootstrap_start_failed:
  assumes "createResult sc = Inr tok"
    and "clientId s = None \<and> err = Error ''clientId should be defined if connected.''
         \<or> clientId s \<noteq> None \<and> startResult sc = Inl err"
  shows "fst (onDemandBootstrap sc args b s) = fail ''Failed to start summarizer'' err b"
proof -
  let ?s1 = "applyCallerEvents (duringCreate sc) s"
  let ?ss = "\<lparr>summarizer = ?s1, runCoordinator = tok, stopP = NotStarted\<rparr>"
  have "fst (start (startResult sc) (duringStart sc) (clientId ?s1) (Some True) ?ss) = Inl err"
    using assms(2) by (auto simp: start_result)
  then show ?thesis
    unfolding onDemandBootstrap_def Let_def prod_sum_case using assms(1) by simp
qed






section \<open>The claims\<close>

subsection \<open>stop, dispose and enqueueSummarize\<close>

text \<open>
  Claim C7. Calling \<^verbatim>\<open>stop\<close> a second time, with the same or another reason, changes
  nothing: the stop request is resolved by the first call with the first reason (or stays
  as it was, if it was resolved before), and no later call of \<^verbatim>\<open>stop\<close> or \<^verbatim>\<open>dispose\<close>
  on the coordinator changes the reason it holds.
\<close>

theorem stop_twice_same_as_once:
  "stop reason' (stop reason s) = stop reason s
   \<and> stopDeferred (stop reason s) = Some (case stopDeferred s of None \<Rightarrow> reason | Some r \<Rightarrow> r)
   \<and> stopDeferred (applyCallerEvents evs (stop reason s)) = stopDeferred (stop reason s)"
proof -
  have 1: "stop reason' (stop reason s) = stop reason s"
    by (simp add: stop_def)
  have 2: "stopDeferred (stop reason s) = Some (case stopDeferred s of None \<Rightarrow> reason | Some r \<Rightarrow> r)"
    by (cases "stopDeferred s") simp_all
  have 3: "stopDeferred (applyCallerEvents evs (stop reason s)) = stopDeferred (stop reason s)"
    unfolding stopDeferred_applyCallerEvents 2 by simp
  show ?thesis using 1 2 3 by simp
qed




text \<open>
  Claim C10. \<^verbatim>\<open>enqueueSummarize\<close> throws, touching nothing, whenever the coordinator is
  disposed or no executor that is not disposed is attached; otherwise it passes its
  arguments to the attached executor's \<^verbatim>\<open>enqueueSummarize\<close> and returns that call's
  result, and the call is all that changes.
\<close>

theorem enqueueSummarize_contract:
  "(if disposed s \<or> \<not> (\<exists>rs. runningSummarizer s = Some rs \<and> \<not> rsDisposed rs)
    then enqueueSummarize result args s =
           (Inl (Error ''Summarizer is not running or already disposed.''), s)
    else \<exists>rs. runningSummarizer s = Some rs
           \<and> enqueueSummarize result args s =
               (Inr (result args), emit (RsEnqueueSummarize (rsId rs) args) s))"
  by (auto simp: enqueueSummarize_def split: option.splits)

text \<open>Enqueueing on the started example coordinator, and on the fresh one.\<close>

theorem enqueueSummarize_contract_witness:
  "enqueueSummarize (\<lambda>a. a @ ''!'') ''now'' startedA =
     (Inr ''now!'', emit (RsEnqueueSummarize 1 ''now'') startedA)
   \<and> enqueueSummarize (\<lambda>a. a @ ''!'') ''now'' clientA =
     (Inl (Error ''Summarizer is not running or already disposed.''), clientA)"
proof -
  have r: "runningSummarizer startedA = Some executor1" "\<not> disposed startedA"
    by (simp_all add: startedA_eval)
  have c: "runningSummarizer clientA = None"
    by (simp add: clientA_def newSummarizer_def)
  show ?thesis
    using enqueueSummarize_contract [of startedA "\<lambda>a. a @ ''!''" "''now''"]
      enqueueSummarize_contract [of clientA "\<lambda>a. a @ ''!''" "''now''"] r c
    by (simp add: executor1_def)
qed

subsection \<open>The ack-reconciliation loop\<close>

text \<open>
  Claim C1, as stated, fails: for acks with reference sequence numbers 5, 5, 9 and 20 the
  refresh callback is invoked with 5, 5, 9 and 20, the acks' own numbers, and not with
  6, 6, 10 and 21; the cursor is incremented only after the callback.
\<close>

theorem ack_refresh_cursor_counterexample:
  "refreshCalls (trace (snd (handleSummaryAcks fourAcks attachedA))) = [5, 5, 9, 20]
   \<and> refreshCalls (trace (snd (handleSummaryAcks fourAcks attachedA))) \<noteq> [6, 6, 10, 21]"
  using ack_loop_runs [OF fourAcks_facts(1) attachedA_facts(1), of 0]
  by (simp add: handleSummaryAcks_def attachedA_facts fourAcks_facts)

text \<open>
  Claim C1, amended. While the executor stays attached, the refresh callback is invoked
  once per received ack, with that ack's reference sequence number, whether or not the
  callback then fails; after each received ack the cursor is that number plus one, which
  is the value the next \<^verbatim>\<open>waitSummaryAck\<close> is called with; and the loop ends up waiting at
  the cursor the last iteration left.
\<close>

theorem ack_cursor_advance:
  assumes "runningSummarizer s = Some rs" and "list_all undisturbed script"
  shows "refreshCalls (trace (snd (handleSummaryAcksFrom script c s))) =
           refreshCalls (trace s) @ receivedAcks script
       \<and> ackWaits (trace (snd (handleSummaryAcksFrom script c s))) =
           ackWaits (trace s) @ cursors script c
       \<and> fst (handleSummaryAcksFrom script c s) = LoopWaiting (last (cursors script c))
       \<and> (\<forall>it ack. ackResult it = Inr ack \<longrightarrow>
             fst (ackIteration it c s) = referenceSequenceNumber ack + 1
             \<and> refreshCalls (trace (snd (ackIteration it c s))) =
                 refreshCalls (trace s) @ [referenceSequenceNumber ack])"
  using ack_loop_runs [OF assms(2) assms(1), of c]
  by (simp add: ackIteration_cursor cursorAfter_def ackIteration_refreshes)

text \<open>
  The four example acks: refreshed with 5, 5, 9, 20, awaited at 0, 6, 6, 10, 21, the
  failure on the third not keeping the fourth from being processed.
\<close>

theorem ack_cursor_advance_witness:
  "runningSummarizer attachedA = Some executor1 \<and> list_all undisturbed fourAcks
   \<and> refreshCalls (trace (snd (handleSummaryAcksFrom fourAcks 0 attachedA))) = [5, 5, 9, 20]
   \<and> ackWaits (trace (snd (handleSummaryAcksFrom fourAcks 0 attachedA))) = [0, 6, 6, 10, 21]
   \<and> fst (handleSummaryAcksFrom fourAcks 0 attachedA) = LoopWaiting 21
   \<and> ackResult (ackOf 5 (Inr ())) =
       Inr \<lparr>referenceSequenceNumber = 5, summaryOpHandle = ''summary'', summaryAckHandle = ''ack''\<rparr>
   \<and> fst (ackIteration (ackOf 5 (Inr ())) 0 attachedA) = 6"
  using ack_cursor_advance [OF attachedA_facts(1) fourAcks_facts(1), of 0]
  by (simp add: attachedA_facts fourAcks_facts ackOf_def)

text \<open>
  Claim C3. An iteration that fails, in \<^verbatim>\<open>waitSummaryAck\<close> or in the refresh callback,
  logs a \<^verbatim>\<open>HandleSummaryAckError\<close> carrying the cursor in force at the failure as the last
  thing it does, and the loop goes on with the rest of its script at that cursor plus one.
  The failure reaches nothing else: the stop request, the disposed flag and the executor
  reference are what the calls made during the iteration left them. If no \<^verbatim>\<open>dispose\<close>
  intervenes, every later iteration runs and the loop ends up waiting for the next ack.
\<close>

theorem ack_failure_absorbed:
  assumes "runningSummarizer s = Some rs" and "failureCursor it c = Some f"
  shows "handleSummaryAcksFrom (it # script) c s =
           handleSummaryAcksFrom script (f + 1) (snd (ackIteration it c s))
       \<and> (\<exists>t. trace (snd (ackIteration it c s)) = t @ [ErrorEvent ''HandleSummaryAckError'' f])
       \<and> ackErrors (trace (snd (ackIteration it c s))) = ackErrors (trace s) @ [f]
       \<and> stopDeferred (snd (ackIteration it c s)) =
           stopDeferred (applyCallerEvents (iterEvents it) s)
       \<and> disposed (snd (ackIteration it c s)) = disposed (applyCallerEvents (iterEvents it) s)
       \<and> runningSummarizer (snd (ackIteration it c s)) =
           runningSummarizer (applyCallerEvents (iterEvents it) s)
       \<and> (undisturbed it \<and> list_all undisturbed script \<longrightarrow>
            fst (handleSummaryAcksFrom (it # script) c s) = LoopWaiting (last (cursors script (f + 1)))
            \<and> ackWaits (trace (snd (handleSummaryAcksFrom (it # script) c s))) =
                ackWaits (trace s) @ c # cursors script (f + 1))"
proof -
  have next_cursor: "cursorAfter it c = f + 1"
    using assms(2) by (auto simp: failureCursor_def cursorAfter_def split: sum.splits)
  have 1: "handleSummaryAcksFrom (it # script) c s =
           handleSummaryAcksFrom script (f + 1) (snd (ackIteration it c s))"
    using handleSummaryAcksFrom_step [OF assms(1), of it script c] next_cursor by simp
  have 2: "\<exists>t. trace (snd (ackIteration it c s)) = t @ [ErrorEvent ''HandleSummaryAckError'' f]"
    using assms(2) by (auto simp: ackIteration_state failureCursor_def split: sum.splits)
  have 3: "ackErrors (trace (snd (ackIteration it c s))) = ackErrors (trace s) @ [f]"
    using assms(2) by (simp add: ackIteration_errors)
  have 4: "undisturbed it \<and> list_all undisturbed script \<longrightarrow>
            fst (handleSummaryAcksFrom (it # script) c s) = LoopWaiting (last (cursors script (f + 1)))
            \<and> ackWaits (trace (snd (handleSummaryAcksFrom (it # script) c s))) =
                ackWaits (trace s) @ c # cursors script (f + 1)"
  proof
    assume "undisturbed it \<and> list_all undisturbed script"
    then have "list_all undisturbed (it # script)" by simp
    from ack_loop_runs [OF this assms(1), of c] next_cursor
    show "fst (handleSummaryAcksFrom (it # script) c s) = LoopWaiting (last (cursors script (f + 1)))
            \<and> ackWaits (trace (snd (handleSummaryAcksFrom (it # script) c s))) =
                ackWaits (trace s) @ c # cursors script (f + 1)"
      by simp
  qed
  show ?thesis by (intro conjI 1 2 3 4 ackIteration_fields)
qed

text \<open>A refresh failure on an ack numbered 9, followed by an ack numbered 20.\<close>

theorem ack_failure_absorbed_witness:
  "runningSummarizer attachedA = Some executor1
   \<and> failureCursor (ackOf 9 (Inl (Error ''refresh failed''))) 6 = Some 9
   \<and> undisturbed (ackOf 9 (Inl (Error ''refresh failed'')))
   \<and> list_all undisturbed [ackOf 20 (Inr ())]
   \<and> ackErrors (trace (snd (ackIteration (ackOf 9 (Inl (Error ''refresh failed''))) 6 attachedA))) = [9]
   \<and> stopDeferred (snd (ackIteration (ackOf 9 (Inl (Error ''refresh failed''))) 6 attachedA)) = None
   \<and> fst (handleSummaryAcksFrom [ackOf 9 (Inl (Error ''refresh failed'')), ackOf 20 (Inr ())] 6 attachedA)
       = LoopWaiting 21
   \<and> ackWaits (trace (snd (handleSummaryAcksFrom
        [ackOf 9 (Inl (Error ''refresh failed'')), ackOf 20 (Inr ())] 6 attachedA))) = [6, 10, 21]"
proof -
  let ?it = "ackOf 9 (Inl (Error ''refresh failed''))"
  let ?rest = "[ackOf 20 (Inr ())]"
  have f: "failureCursor ?it 6 = Some 9"
    by (simp add: failureCursor_def ackOf_def)
  have u: "undisturbed ?it \<and> list_all undisturbed ?rest"
    by (simp add: undisturbed_def iterEvents_def ackOf_def)
  have e: "iterEvents ?it = []"
    by (simp add: iterEvents_def ackOf_def)
  note t = ack_failure_absorbed [OF attachedA_facts(1) f, of ?rest]
  from t have "ackErrors (trace (snd (ackIteration ?it 6 attachedA))) = ackErrors (trace attachedA) @ [9]"
    by blast
  then have 1: "ackErrors (trace (snd (ackIteration ?it 6 attachedA))) = [9]"
    by (simp add: attachedA_facts)
  from t have "stopDeferred (snd (ackIteration ?it 6 attachedA)) =
      stopDeferred (applyCallerEvents (iterEvents ?it) attachedA)"
    by blast
  then have 2: "stopDeferred (snd (ackIteration ?it 6 attachedA)) = None"
    by (simp add: e attachedA_facts)
  from t u have "fst (handleSummaryAcksFrom (?it # ?rest) 6 attachedA) =
        LoopWaiting (last (cursors ?rest (9 + 1)))
      \<and> ackWaits (trace (snd (handleSummaryAcksFrom (?it # ?rest) 6 attachedA))) =
        ackWaits (trace attachedA) @ 6 # cursors ?rest (9 + 1)"
    by blast
  then have 3: "fst (handleSummaryAcksFrom (?it # ?rest) 6 attachedA) = LoopWaiting 21"
    "ackWaits (trace (snd (handleSummaryAcksFrom (?it # ?rest) 6 attachedA))) = [6, 10, 21]"
    by (simp_all add: attachedA_facts cursorAfter_def ackOf_def del: handleSummaryAcksFrom.simps)
  show ?thesis
    using attachedA_facts(1) f u 1 2 3 by (simp del: handleSummaryAcksFrom.simps)
qed

subsection \<open>run\<close>

text \<open>
  Claim C2, as stated, fails in its own scenario: when the token is resolved with
  \<^verbatim>\<open>connectivityLoss\<close> after \<^verbatim>\<open>run("client-A")\<close> has started the executor, \<^verbatim>\<open>run\<close>
  resolves to \<^verbatim>\<open>connectivityLoss\<close> and \<^verbatim>\<open>closeFn\<close> is called once, but \<^verbatim>\<open>waitStop\<close> is
  called with \<^verbatim>\<open>allowLastSummary = false\<close>, the token being cancelled by then, and never
  with \<^verbatim>\<open>true\<close>.
\<close>

theorem run_connectivityLoss_counterexample:
  "fst (run connectivityLoss ''client-A'' None clientA) = Returned ''connectivityLoss''
   \<and> filter isTeardownCall (trace (snd (run connectivityLoss ''client-A'' None clientA))) =
       [RsWaitStop 1 False, CoordinatorStop ''connectivityLoss'', CloseFn]
   \<and> RsWaitStop 1 True \<notin> set (trace (snd (run connectivityLoss ''client-A'' None clientA)))"
proof -
  have first: "firstTriggered (stopDeferred clientA)
      (map Caller (duringCreate connectivityLoss) @ duringStart connectivityLoss @
       duringStopWait connectivityLoss) = Some ''connectivityLoss''"
    by (simp add: clientA_facts connectivityLoss_facts)
  note r = run_settled [OF connectivityLoss_facts(1,7,8) clientA_facts(1)
      connectivityLoss_facts(3,6) first, of "''client-A''" None]
  have calls: "filter isTeardownCall (trace (snd (run connectivityLoss ''client-A'' None clientA))) =
       [RsWaitStop 1 False, CoordinatorStop ''connectivityLoss'', CloseFn]"
    using r(2) by (simp add: clientA_facts connectivityLoss_facts executor1_def tokenTriggered_def)
  have "RsWaitStop 1 True \<notin>
      set (filter isTeardownCall (trace (snd (run connectivityLoss ''client-A'' None clientA))))"
    unfolding calls by simp
  then have "RsWaitStop 1 True \<notin> set (trace (snd (run connectivityLoss ''client-A'' None clientA)))"
    by simp
  then show ?thesis using r(1) calls by simp
qed

text \<open>
  Claim C2, amended. In a session whose token is obtained uncancelled, whose executor
  starts and whose \<^verbatim>\<open>waitStop\<close> returns, \<^verbatim>\<open>run\<close> resolves with the reason that was
  triggered first among a stop request already in force, the calls of \<^verbatim>\<open>stop\<close> and
  \<^verbatim>\<open>dispose\<close>, and the cancellations of the token. The session ends with exactly one call
  of \<^verbatim>\<open>waitStop\<close>, with \<^verbatim>\<open>allowLastSummary\<close> true exactly when the token was not
  cancelled, then one call of the token's \<^verbatim>\<open>stop\<close> with the winning reason, then one call
  of \<^verbatim>\<open>closeFn\<close>.
\<close>

theorem run_stop_reason:
  assumes "createResult sc = Inr tok" and "\<not> cancelled tok" and "waitCancelled tok = None"
    and "clientId s = Some cid"
    and "startResult sc = Inr rs"
    and "waitStopResult sc = Inr u"
    and "firstTriggered (stopDeferred s)
        (map Caller (duringCreate sc) @ duringStart sc @ duringStopWait sc) = Some reason"
  shows "fst (run sc onBehalfOf options s) = Returned reason
       \<and> filter isTeardownCall (trace (snd (run sc onBehalfOf options s))) =
           filter isTeardownCall (trace s) @
           [RsWaitStop (rsId rs) (\<not> tokenTriggered (duringStart sc @ duringStopWait sc)),
            CoordinatorStop reason, CloseFn]"
  using run_settled [OF assms] by simp

text \<open>The scenario: \<^verbatim>\<open>connectivityLoss\<close> wins and \<^verbatim>\<open>waitStop\<close> gets \<^verbatim>\<open>false\<close>.\<close>

theorem run_stop_reason_witness:
  "createResult connectivityLoss = Inr freshToken \<and> \<not> cancelled freshToken
   \<and> waitCancelled freshToken = None \<and> clientId clientA = Some ''client-A''
   \<and> startResult connectivityLoss = Inr executor1 \<and> waitStopResult connectivityLoss = Inr ()
   \<and> firstTriggered (stopDeferred clientA)
        (map Caller (duringCreate connectivityLoss) @ duringStart connectivityLoss @
         duringStopWait connectivityLoss) = Some ''connectivityLoss''
   \<and> fst (run connectivityLoss ''client-A'' None clientA) = Returned ''connectivityLoss''
   \<and> filter isTeardownCall (trace (snd (run connectivityLoss ''client-A'' None clientA))) =
       [RsWaitStop 1 False, CoordinatorStop ''connectivityLoss'', CloseFn]"
proof -
  have first: "firstTriggered (stopDeferred clientA)
      (map Caller (duringCreate connectivityLoss) @ duringStart connectivityLoss @
       duringStopWait connectivityLoss) = Some ''connectivityLoss''"
    by (simp add: clientA_facts connectivityLoss_facts)
  note r = run_stop_reason [OF connectivityLoss_facts(1,7,8) clientA_facts(1)
      connectivityLoss_facts(3,6) first, of "''client-A''" None]
  show ?thesis
    using r first
    by (simp add: clientA_facts connectivityLoss_facts executor1_def tokenTriggered_def)
qed

text \<open>
  Claim C4. When the token that \<^verbatim>\<open>run\<close> obtains is already cancelled, \<^verbatim>\<open>run\<close> resolves
  with the token's reason; no executor is started and no op listener is registered, the
  two listener handles stay as they were, and of the calls that end a session only
  \<^verbatim>\<open>closeFn\<close> is made.
\<close>

theorem run_token_already_cancelled:
  assumes "createResult sc = Inr tok" and "cancelled tok" and "waitCancelled tok = Some reason"
  shows "fst (run sc onBehalfOf options s) = Returned reason
       \<and> filter isStartCall (trace (snd (run sc onBehalfOf options s))) = filter isStartCall (trace s)
       \<and> systemOpListener (snd (run sc onBehalfOf options s)) = systemOpListener s
       \<and> opListener (snd (run sc onBehalfOf options s)) = opListener s
       \<and> filter isTeardownCall (trace (snd (run sc onBehalfOf options s))) =
           filter isTeardownCall (trace s) @ [CloseFn]"
proof -
  let ?ss = "startRace True (Some onBehalfOf)
      \<lparr>summarizer = applyCallerEvents (duringCreate sc) (emit CoordinatorCreate s),
       runCoordinator = tok, stopP = NotStarted\<rparr>"
  have core: "runCore sc onBehalfOf options s = (Some (Inr reason), summarizer (flush ?ss))"
    using assms by (simp add: runCore_def Let_def)
  have sys: "systemOpListener (applyCallerEvents evs s0) = systemOpListener s0"
    "opListener (applyCallerEvents evs s0) = opListener s0" for evs s0
    by (induction evs arbitrary: s0; simp)+
  show ?thesis
    by (simp add: run_def core runFinally_def sys)
qed

text \<open>A token handed over cancelled with \<^verbatim>\<open>parentNotConnected\<close>.\<close>

theorem run_token_already_cancelled_witness:
  "createResult alreadyCancelled = Inr \<lparr>cancelled = True, waitCancelled = Some ''parentNotConnected''\<rparr>
   \<and> fst (run alreadyCancelled ''client-A'' None clientA) = Returned ''parentNotConnected''
   \<and> filter isStartCall (trace (snd (run alreadyCancelled ''client-A'' None clientA))) = []
   \<and> systemOpListener (snd (run alreadyCancelled ''client-A'' None clientA)) = None
   \<and> opListener (snd (run alreadyCancelled ''client-A'' None clientA)) = None"
proof -
  have c: "createResult alreadyCancelled =
      Inr \<lparr>cancelled = True, waitCancelled = Some ''parentNotConnected''\<rparr>"
    by (simp add: alreadyCancelled_def)
  show ?thesis
    using run_token_already_cancelled [OF c, of "''parentNotConnected''" "''client-A''" None clientA] c
    by (simp add: clientA_facts)
qed

text \<open>
  Claim C5. Whatever \<^verbatim>\<open>runCore\<close> throws (a failed token creation, a missing client id,
  a failed start of the executor, a failed \<^verbatim>\<open>waitStop\<close>), \<^verbatim>\<open>run\<close> calls
  \<^verbatim>\<open>stop("summarizerException")\<close>, which forces the stop request unless it was resolved,
  and throws the error wrapped as a \<^verbatim>\<open>SummarizingWarning\<close> with the original message,
  code \<^verbatim>\<open>summarizerRun\<close> and \<^verbatim>\<open>canRetry = true\<close>. Every \<^verbatim>\<open>run\<close> that completes, by
  returning or by throwing, ends by disposing the coordinator and then calling
  \<^verbatim>\<open>closeFn\<close>, once.
\<close>

theorem run_failure_and_finally:
  "(\<forall>err s1. runCore sc onBehalfOf options s = (Some (Inl err), s1) \<longrightarrow>
      run sc onBehalfOf options s =
        (Threw (newSummarizingWarning (message err) ''summarizerRun'' False),
         runFinally (emit (WrapErrorLogged ''summarizerRun'') (stop ''summarizerException'' s1)))
      \<and> canRetry (newSummarizingWarning (message err) ''summarizerRun'' False)
      \<and> errorType (newSummarizingWarning (message err) ''summarizerRun'' False) = ''summarizingError''
      \<and> stopDeferred (snd (run sc onBehalfOf options s)) =
          Some (case stopDeferred s1 of None \<Rightarrow> ''summarizerException'' | Some r \<Rightarrow> r))
   \<and> (\<forall>err. createResult sc = Inl err \<longrightarrow>
        fst (run sc onBehalfOf options s) =
          Threw (newSummarizingWarning (message err) ''summarizerRun'' False))
   \<and> (\<forall>tok err. createResult sc = Inr tok \<and> \<not> cancelled tok \<and> clientId s \<noteq> None
          \<and> startResult sc = Inl err \<longrightarrow>
        fst (run sc onBehalfOf options s) =
          Threw (newSummarizingWarning (message err) ''summarizerRun'' False))
   \<and> (\<forall>tok. createResult sc = Inr tok \<and> \<not> cancelled tok \<and> clientId s = None \<longrightarrow>
        fst (run sc onBehalfOf options s) =
          Threw (newSummarizingWarning ''clientId should be defined if connected.''
                   ''summarizerRun'' False))
   \<and> (fst (run sc onBehalfOf options s) \<noteq> Hung \<longrightarrow>
        disposed (snd (run sc onBehalfOf options s))
        \<and> runningSummarizer (snd (run sc onBehalfOf options s)) = None
        \<and> (\<exists>t. trace (snd (run sc onBehalfOf options s)) = t @ [CloseFn])
        \<and> filter isCloseFn (trace (snd (run sc onBehalfOf options s))) =
            filter isCloseFn (trace s) @ [CloseFn])"
proof -
  have thrown: "run sc onBehalfOf options s =
        (Threw (newSummarizingWarning (message err) ''summarizerRun'' False),
         runFinally (emit (WrapErrorLogged ''summarizerRun'') (stop ''summarizerException'' s1)))"
    if "runCore sc onBehalfOf options s = (Some (Inl err), s1)" for err s1
    using that by (simp add: run_def wrap_def)
  have thrown': "fst (run sc onBehalfOf options s) =
      Threw (newSummarizingWarning (message err) ''summarizerRun'' False)"
    if "fst (runCore sc onBehalfOf options s) = Some (Inl err)" for err
    using that thrown [of err "snd (runCore sc onBehalfOf options s)"]
    by (cases "runCore sc onBehalfOf options s") simp
  have 1: "\<forall>err s1. runCore sc onBehalfOf options s = (Some (Inl err), s1) \<longrightarrow>
      run sc onBehalfOf options s =
        (Threw (newSummarizingWarning (message err) ''summarizerRun'' False),
         runFinally (emit (WrapErrorLogged ''summarizerRun'') (stop ''summarizerException'' s1)))
      \<and> canRetry (newSummarizingWarning (message err) ''summarizerRun'' False)
      \<and> errorType (newSummarizingWarning (message err) ''summarizerRun'' False) = ''summarizingError''
      \<and> stopDeferred (snd (run sc onBehalfOf options s)) =
          Some (case stopDeferred s1 of None \<Rightarrow> ''summarizerException'' | Some r \<Rightarrow> r)"
  proof (intro allI impI)
    fix err s1
    assume c: "runCore sc onBehalfOf options s = (Some (Inl err), s1)"
    have "stopDeferred (snd (run sc onBehalfOf options s)) =
          Some (case stopDeferred s1 of None \<Rightarrow> ''summarizerException'' | Some r \<Rightarrow> r)"
      unfolding thrown [OF c] by (cases "stopDeferred s1") (simp_all add: runFinally_def)
    then show "run sc onBehalfOf options s =
        (Threw (newSummarizingWarning (message err) ''summarizerRun'' False),
         runFinally (emit (WrapErrorLogged ''summarizerRun'') (stop ''summarizerException'' s1)))
      \<and> canRetry (newSummarizingWarning (message err) ''summarizerRun'' False)
      \<and> errorType (newSummarizingWarning (message err) ''summarizerRun'' False) = ''summarizingError''
      \<and> stopDeferred (snd (run sc onBehalfOf options s)) =
          Some (case stopDeferred s1 of None \<Rightarrow> ''summarizerException'' | Some r \<Rightarrow> r)"
      using thrown [OF c] by (simp add: newSummarizingWarning_def summarizingError_def)
  qed
  have 2: "\<forall>err. createResult sc = Inl err \<longrightarrow>
        fst (run sc onBehalfOf options s) =
          Threw (newSummarizingWarning (message err) ''summarizerRun'' False)"
    using thrown' by (simp add: runCore_create_failed)
  have 3: "\<forall>tok err. createResult sc = Inr tok \<and> \<not> cancelled tok \<and> clientId s \<noteq> None
          \<and> startResult sc = Inl err \<longrightarrow>
        fst (run sc onBehalfOf options s) =
          Threw (newSummarizingWarning (message err) ''summarizerRun'' False)"
    using thrown' runCore_start_failed [of sc _ s _ onBehalfOf options] by blast
  have 4: "\<forall>tok. createResult sc = Inr tok \<and> \<not> cancelled tok \<and> clientId s = None \<longrightarrow>
        fst (run sc onBehalfOf options s) =
          Threw (newSummarizingWarning ''clientId should be defined if connected.''
                   ''summarizerRun'' False)"
    using thrown' [of "Error ''clientId should be defined if connected.''"]
      runCore_start_failed [of sc _ s "Error ''clientId should be defined if connected.''"
        onBehalfOf options]
    by auto
  have 5: "fst (run sc onBehalfOf options s) \<noteq> Hung \<longrightarrow>
        disposed (snd (run sc onBehalfOf options s))
        \<and> runningSummarizer (snd (run sc onBehalfOf options s)) = None
        \<and> (\<exists>t. trace (snd (run sc onBehalfOf options s)) = t @ [CloseFn])
        \<and> filter isCloseFn (trace (snd (run sc onBehalfOf options s))) =
            filter isCloseFn (trace s) @ [CloseFn]"
  proof
    assume "fst (run sc onBehalfOf options s) \<noteq> Hung"
    then obtain s1 where s1: "snd (run sc onBehalfOf options s) = runFinally s1"
        "filter isCloseFn (trace s1) = filter isCloseFn (trace s)"
      using run_completed by blast
    show "disposed (snd (run sc onBehalfOf options s))
        \<and> runningSummarizer (snd (run sc onBehalfOf options s)) = None
        \<and> (\<exists>t. trace (snd (run sc onBehalfOf options s)) = t @ [CloseFn])
        \<and> filter isCloseFn (trace (snd (run sc onBehalfOf options s))) =
            filter isCloseFn (trace s) @ [CloseFn]"
      unfolding s1(1) using s1(2) by (simp add: runFinally_def)
  qed
  show ?thesis by (intro conjI 1 2 3 4 5)
qed

text \<open>
  Sessions whose token cannot be created, whose executor fails to start, and whose
  runtime reports no client id.
\<close>

theorem run_failure_and_finally_witness:
  "runCore creationFails ''client-A'' None clientA =
     (Some (Inl (Error ''no connection'')), emit CoordinatorCreate clientA)
   \<and> createResult creationFails = Inl (Error ''no connection'')
   \<and> run creationFails ''client-A'' None clientA =
       (Threw (newSummarizingWarning ''no connection'' ''summarizerRun'' False),
        runFinally (emit (WrapErrorLogged ''summarizerRun'')
          (stop ''summarizerException'' (emit CoordinatorCreate clientA))))
   \<and> stopDeferred (snd (run creationFails ''client-A'' None clientA)) = Some ''summarizerException''
   \<and> fst (run creationFails ''client-A'' None clientA) \<noteq> Hung
   \<and> disposed (snd (run creationFails ''client-A'' None clientA))
   \<and> filter isCloseFn (trace (snd (run creationFails ''client-A'' None clientA))) = [CloseFn]
   \<and> createResult startFails = Inr freshToken \<and> \<not> cancelled freshToken
   \<and> clientId clientA \<noteq> None \<and> startResult startFails = Inl (Error ''start failed'')
   \<and> fst (run startFails ''client-A'' None clientA) =
       Threw (newSummarizingWarning ''start failed'' ''summarizerRun'' False)
   \<and> clientId disconnected = None
   \<and> fst (run startFails ''client-A'' None disconnected) =
       Threw (newSummarizingWarning ''clientId should be defined if connected.''
                ''summarizerRun'' False)"
proof -
  let ?run = "run creationFails ''client-A'' None clientA"
  have core: "runCore creationFails ''client-A'' None clientA =
     (Some (Inl (Error ''no connection'')), emit CoordinatorCreate clientA)"
    by (simp add: runCore_create_failed creationFails_facts)
  note t = run_failure_and_finally [of creationFails "''client-A''" None clientA]
  from t core have a: "?run =
        (Threw (newSummarizingWarning (message (Error ''no connection'')) ''summarizerRun'' False),
         runFinally (emit (WrapErrorLogged ''summarizerRun'')
           (stop ''summarizerException'' (emit CoordinatorCreate clientA))))"
    by blast
  from t core have b: "stopDeferred (snd ?run) =
      Some (case stopDeferred (emit CoordinatorCreate clientA) of
              None \<Rightarrow> ''summarizerException'' | Some r \<Rightarrow> r)"
    by blast
  have h: "fst ?run \<noteq> Hung"
    unfolding a by simp
  from t h have c: "disposed (snd ?run)
      \<and> filter isCloseFn (trace (snd ?run)) = filter isCloseFn (trace clientA) @ [CloseFn]"
    by blast
  have sf: "createResult startFails = Inr freshToken" "\<not> cancelled freshToken"
    "startResult startFails = Inl (Error ''start failed'')"
    by (simp_all add: startFails_def freshToken_def)
  have ca: "clientId clientA \<noteq> None"
    by (simp add: clientA_facts)
  have dc: "clientId disconnected = None"
    by (simp add: disconnected_def newSummarizer_def)
  from run_failure_and_finally [of startFails "''client-A''" None clientA] sf ca
  have d: "fst (run startFails ''client-A'' None clientA) =
      Threw (newSummarizingWarning (message (Error ''start failed'')) ''summarizerRun'' False)"
    by blast
  from run_failure_and_finally [of startFails "''client-A''" None disconnected] sf dc
  have e: "fst (run startFails ''client-A'' None disconnected) =
       Threw (newSummarizingWarning ''clientId should be defined if connected.''
                ''summarizerRun'' False)"
    by blast
  show ?thesis
    using core a b h c sf ca dc d e by (simp add: creationFails_facts clientA_facts)
qed

subsection \<open>summarizeOnDemand\<close>

text \<open>
  Claim C8, as stated, fails: on a coordinator that is not disposed and beside which no
  other client is elected, \<^verbatim>\<open>summarizeOnDemand\<close> still throws when the token factory
  throws while it is being called; the call sits inside the \<^verbatim>\<open>try\<close> block, whose
  \<^verbatim>\<open>catch\<close> wraps the error and throws it again.
\<close>

theorem summarizeOnDemand_factory_counterexample:
  "\<not> disposed clientA
   \<and> \<not> (summarizerClientId clientA \<noteq> None \<and> summarizerClientId clientA \<noteq> clientId clientA)
   \<and> fst (summarizeOnDemand creationThrows ''now'' clientA) =
       Inl (newSummarizingWarning ''no connection'' ''summarizerRun'' False)"
proof -
  have c: "\<not> disposed clientA"
    "\<not> (summarizerClientId clientA \<noteq> None \<and> summarizerClientId clientA \<noteq> clientId clientA)"
    "\<not> executorLive clientA"
    by (simp_all add: clientA_facts executorLive_def)
  have f: "factoryThrows creationThrows = Some (Error ''no connection'')"
    by (simp add: factoryThrows_def creationThrows_def creationFails_def)
  show ?thesis
    using c by (simp add: summarizeOnDemand_slow [OF c] onDemandStart_factory_throws [OF f])
qed

text \<open>
  Claim C8, amended. \<^verbatim>\<open>summarizeOnDemand\<close> throws exactly when the coordinator is
  disposed, or a client other than this one is the elected summarizer, or one of the
  calls it makes inside its \<^verbatim>\<open>try\<close> block throws: the on-demand entry point of the
  attached executor on the fast path, the token factory or \<^verbatim>\<open>builder.build()\<close> on the
  slow path. What it throws is always the error wrapped as a \<^verbatim>\<open>SummarizingWarning\<close>
  with code \<^verbatim>\<open>summarizerRun\<close>. When it throws for one of the two preconditions, logging
  the wrap is all it does: no token is asked for and no executor started; when the
  factory throws, no executor is started either. A token factory whose promise rejects
  and a failed start (a missing client id included) are not thrown: they end up as the
  failure of the "started" stage of the returned builder, with the error that occurred.
\<close>

theorem summarizeOnDemand_throws:
  "((\<exists>w. fst (summarizeOnDemand sc args s) = Inl w) \<longleftrightarrow>
      disposed s \<or> (summarizerClientId s \<noteq> None \<and> summarizerClientId s \<noteq> clientId s)
      \<or> (executorLive s \<and> isl (attachedOnDemand sc))
      \<or> (\<not> executorLive s \<and> (factoryThrows sc \<noteq> None \<or> isl (buildResult sc))))
   \<and> (disposed s \<or> (summarizerClientId s \<noteq> None \<and> summarizerClientId s \<noteq> clientId s) \<longrightarrow>
        (\<exists>msg. fst (summarizeOnDemand sc args s) =
                 Inl (newSummarizingWarning msg ''summarizerRun'' False))
        \<and> snd (summarizeOnDemand sc args s) = emit (WrapErrorLogged ''summarizerRun'') s
        \<and> filter isAsyncWork (trace (snd (summarizeOnDemand sc args s))) =
            filter isAsyncWork (trace s))
   \<and> (\<forall>err. \<not> disposed s
          \<and> \<not> (summarizerClientId s \<noteq> None \<and> summarizerClientId s \<noteq> clientId s)
          \<and> executorLive s \<and> attachedOnDemand sc = Inl err \<longrightarrow>
        fst (summarizeOnDemand sc args s) =
          Inl (newSummarizingWarning (message err) ''summarizerRun'' False)
        \<and> filter isAsyncWork (trace (snd (summarizeOnDemand sc args s))) =
            filter isAsyncWork (trace s))
   \<and> (\<forall>err. \<not> disposed s
          \<and> \<not> (summarizerClientId s \<noteq> None \<and> summarizerClientId s \<noteq> clientId s)
          \<and> \<not> executorLive s \<and> factoryThrows sc = Some err \<longrightarrow>
        fst (summarizeOnDemand sc args s) =
          Inl (newSummarizingWarning (message err) ''summarizerRun'' False)
        \<and> filter isStartCall (trace (snd (summarizeOnDemand sc args s))) =
            filter isStartCall (trace s))
   \<and> (\<forall>err. \<not> disposed s
          \<and> \<not> (summarizerClientId s \<noteq> None \<and> summarizerClientId s \<noteq> clientId s)
          \<and> \<not> executorLive s \<and> factoryThrows sc = None \<and> buildResult sc = Inl err \<longrightarrow>
        fst (summarizeOnDemand sc args s) =
          Inl (newSummarizingWarning (message err) ''summarizerRun'' False))
   \<and> (\<forall>err u. \<not> disposed s
          \<and> \<not> (summarizerClientId s \<noteq> None \<and> summarizerClientId s \<noteq> clientId s)
          \<and> \<not> executorLive s \<and> createResult sc = Inl err \<and> \<not> createThrows sc
          \<and> buildResult sc = Inr u \<longrightarrow>
        (\<exists>b. fst (summarizeOnDemand sc args s) = Inr b
           \<and> summarizerStarted b = Some (Failure ''Failed to create cancellation token'' err)))
   \<and> (\<forall>err tok u. \<not> disposed s
          \<and> \<not> (summarizerClientId s \<noteq> None \<and> summarizerClientId s \<noteq> clientId s)
          \<and> \<not> executorLive s \<and> createResult sc = Inr tok
          \<and> (clientId s = None \<and> err = Error ''clientId should be defined if connected.''
              \<or> clientId s \<noteq> None \<and> startResult sc = Inl err)
          \<and> buildResult sc = Inr u \<longrightarrow>
        (\<exists>b. fst (summarizeOnDemand sc args s) = Inr b
           \<and> summarizerStarted b = Some (Failure ''Failed to start summarizer'' err)))"
proof -
  let ?rejected = "disposed s \<or> (summarizerClientId s \<noteq> None \<and> summarizerClientId s \<noteq> clientId s)"
  let ?s0 = "emit CoordinatorCreate (s\<lparr>runningSummarizer := None\<rparr>)"
  have fast: "summarizeOnDemand sc args s =
       (case attachedOnDemand sc of
          Inl err \<Rightarrow>
            (Inl (newSummarizingWarning (message err) ''summarizerRun'' False),
             emit (WrapErrorLogged ''summarizerRun'') (emit (RsSummarizeOnDemand (rsId rs) args) s))
        | Inr u \<Rightarrow>
            (Inr (newBuilder\<lparr>summarizerStarted := Some Success\<rparr>),
             emit (RsSummarizeOnDemand (rsId rs) args) s))"
    if "\<not> ?rejected" "runningSummarizer s = Some rs" "\<not> rsDisposed rs" for rs
    using that by (intro summarizeOnDemand_fast) simp_all
  have slow: "summarizeOnDemand sc args s = onDemandStart sc args s"
    if "\<not> ?rejected" "\<not> executorLive s"
    using that by (intro summarizeOnDemand_slow) simp_all
  have live: "\<exists>rs. runningSummarizer s = Some rs \<and> \<not> rsDisposed rs" if "executorLive s"
    using that by (auto simp: executorLive_def split: option.splits)
  have 1: "(\<exists>w. fst (summarizeOnDemand sc args s) = Inl w) \<longleftrightarrow>
      ?rejected
      \<or> (executorLive s \<and> isl (attachedOnDemand sc))
      \<or> (\<not> executorLive s \<and> (factoryThrows sc \<noteq> None \<or> isl (buildResult sc)))"
  proof (cases ?rejected)
    case True
    then show ?thesis using summarizeOnDemand_rejected [of s sc args] by force
  next
    case notRejected: False
    show ?thesis
    proof (cases "executorLive s")
      case True
      then obtain rs where "runningSummarizer s = Some rs" "\<not> rsDisposed rs"
        using live by blast
      then show ?thesis
        using notRejected True fast [of rs] by (cases "attachedOnDemand sc") simp_all
    next
      case False
      show ?thesis
      proof (cases "factoryThrows sc")
        case (Some err)
        then show ?thesis
          using notRejected False by (simp add: slow onDemandStart_factory_throws)
      next
        case None
        then show ?thesis
          using notRejected False
          by (cases "buildResult sc")
             (simp_all add: slow onDemandStart_build_throws onDemandStart_returns)
      qed
    qed
  qed
  have 2: "?rejected \<longrightarrow>
        (\<exists>msg. fst (summarizeOnDemand sc args s) =
                 Inl (newSummarizingWarning msg ''summarizerRun'' False))
        \<and> snd (summarizeOnDemand sc args s) = emit (WrapErrorLogged ''summarizerRun'') s
        \<and> filter isAsyncWork (trace (snd (summarizeOnDemand sc args s))) =
            filter isAsyncWork (trace s)"
  proof
    assume ?rejected
    then obtain msg where "summarizeOnDemand sc args s =
       (Inl (newSummarizingWarning msg ''summarizerRun'' False),
        emit (WrapErrorLogged ''summarizerRun'') s)"
      using summarizeOnDemand_rejected by blast
    then show "(\<exists>msg. fst (summarizeOnDemand sc args s) =
                 Inl (newSummarizingWarning msg ''summarizerRun'' False))
        \<and> snd (summarizeOnDemand sc args s) = emit (WrapErrorLogged ''summarizerRun'') s
        \<and> filter isAsyncWork (trace (snd (summarizeOnDemand sc args s))) =
            filter isAsyncWork (trace s)"
      by auto
  qed
  have 3: "\<forall>err. \<not> disposed s
          \<and> \<not> (summarizerClientId s \<noteq> None \<and> summarizerClientId s \<noteq> clientId s)
          \<and> executorLive s \<and> attachedOnDemand sc = Inl err \<longrightarrow>
        fst (summarizeOnDemand sc args s) =
          Inl (newSummarizingWarning (message err) ''summarizerRun'' False)
        \<and> filter isAsyncWork (trace (snd (summarizeOnDemand sc args s))) =
            filter isAsyncWork (trace s)"
  proof (intro allI impI)
    fix err
    assume a: "\<not> disposed s
          \<and> \<not> (summarizerClientId s \<noteq> None \<and> summarizerClientId s \<noteq> clientId s)
          \<and> executorLive s \<and> attachedOnDemand sc = Inl err"
    then obtain rs where "runningSummarizer s = Some rs" "\<not> rsDisposed rs"
      using live by blast
    with a show "fst (summarizeOnDemand sc args s) =
          Inl (newSummarizingWarning (message err) ''summarizerRun'' False)
        \<and> filter isAsyncWork (trace (snd (summarizeOnDemand sc args s))) =
            filter isAsyncWork (trace s)"
      using fast [of rs] by simp
  qed
  have 4: "\<forall>err. \<not> disposed s
          \<and> \<not> (summarizerClientId s \<noteq> None \<and> summarizerClientId s \<noteq> clientId s)
          \<and> \<not> executorLive s \<and> factoryThrows sc = Some err \<longrightarrow>
        fst (summarizeOnDemand sc args s) =
          Inl (newSummarizingWarning (message err) ''summarizerRun'' False)
        \<and> filter isStartCall (trace (snd (summarizeOnDemand sc args s))) =
            filter isStartCall (trace s)"
    by (simp add: slow onDemandStart_factory_throws)
  have 5: "\<forall>err. \<not> disposed s
          \<and> \<not> (summarizerClientId s \<noteq> None \<and> summarizerClientId s \<noteq> clientId s)
          \<and> \<not> executorLive s \<and> factoryThrows sc = None \<and> buildResult sc = Inl err \<longrightarrow>
        fst (summarizeOnDemand sc args s) =
          Inl (newSummarizingWarning (message err) ''summarizerRun'' False)"
    by (simp add: slow onDemandStart_build_throws)
  have 6: "\<forall>err u. \<not> disposed s
          \<and> \<not> (summarizerClientId s \<noteq> None \<and> summarizerClientId s \<noteq> clientId s)
          \<and> \<not> executorLive s \<and> createResult sc = Inl err \<and> \<not> createThrows sc
          \<and> buildResult sc = Inr u \<longrightarrow>
        (\<exists>b. fst (summarizeOnDemand sc args s) = Inr b
           \<and> summarizerStarted b = Some (Failure ''Failed to create cancellation token'' err))"
    by (simp add: slow onDemandStart_returns factoryThrows_simps onDemandBootstrap_create_failed
          fail_def newBuilder_def)
  have 7: "\<forall>err tok u. \<not> disposed s
          \<and> \<not> (summarizerClientId s \<noteq> None \<and> summarizerClientId s \<noteq> clientId s)
          \<and> \<not> executorLive s \<and> createResult sc = Inr tok
          \<and> (clientId s = None \<and> err = Error ''clientId should be defined if connected.''
              \<or> clientId s \<noteq> None \<and> startResult sc = Inl err)
          \<and> buildResult sc = Inr u \<longrightarrow>
        (\<exists>b. fst (summarizeOnDemand sc args s) = Inr b
           \<and> summarizerStarted b = Some (Failure ''Failed to start summarizer'' err))"
  proof (intro allI impI)
    fix err tok u
    assume a: "\<not> disposed s
          \<and> \<not> (summarizerClientId s \<noteq> None \<and> summarizerClientId s \<noteq> clientId s)
          \<and> \<not> executorLive s \<and> createResult sc = Inr tok
          \<and> (clientId s = None \<and> err = Error ''clientId should be defined if connected.''
              \<or> clientId s \<noteq> None \<and> startResult sc = Inl err)
          \<and> buildResult sc = Inr u"
    then have "fst (onDemandBootstrap sc args newBuilder ?s0) =
        fail ''Failed to start summarizer'' err newBuilder"
      by (intro onDemandBootstrap_start_failed [of sc tok]) simp_all
    with a show "\<exists>b. fst (summarizeOnDemand sc args s) = Inr b
           \<and> summarizerStarted b = Some (Failure ''Failed to start summarizer'' err)"
      by (simp add: slow onDemandStart_returns factoryThrows_simps fail_def newBuilder_def)
  qed
  have throws: "(\<exists>w. fst (summarizeOnDemand sc args s) = Inl w) \<longleftrightarrow>
      disposed s \<or> (summarizerClientId s \<noteq> None \<and> summarizerClientId s \<noteq> clientId s)
      \<or> (executorLive s \<and> isl (attachedOnDemand sc))
      \<or> (\<not> executorLive s \<and> (factoryThrows sc \<noteq> None \<or> isl (buildResult sc)))"
    using 1 by (simp only: disj_assoc)
  show ?thesis by (intro conjI throws 2 3 4 5 6 7)
qed

text \<open>
  A disposed coordinator and one beside an elected \<^verbatim>\<open>client-B\<close>; the started coordinator
  whose executor refuses the request; a fresh one whose token factory throws, whose
  \<^verbatim>\<open>builder.build()\<close> throws, whose token factory's promise rejects, and whose executor
  fails to start.
\<close>

theorem summarizeOnDemand_throws_witness:
  "disposed (dispose clientA)
   \<and> isl (fst (summarizeOnDemand creationFails ''now'' (dispose clientA)))
   \<and> snd (summarizeOnDemand creationFails ''now'' (dispose clientA)) =
       emit (WrapErrorLogged ''summarizerRun'') (dispose clientA)
   \<and> summarizerClientId electedElsewhere \<noteq> None
   \<and> summarizerClientId electedElsewhere \<noteq> clientId electedElsewhere
   \<and> isl (fst (summarizeOnDemand creationFails ''now'' electedElsewhere))
   \<and> \<not> disposed startedA
   \<and> \<not> (summarizerClientId startedA \<noteq> None \<and> summarizerClientId startedA \<noteq> clientId startedA)
   \<and> executorLive startedA
   \<and> attachedOnDemand executorRefuses = Inl (Error ''already summarizing'')
   \<and> fst (summarizeOnDemand executorRefuses ''now'' startedA) =
       Inl (newSummarizingWarning ''already summarizing'' ''summarizerRun'' False)
   \<and> \<not> disposed clientA
   \<and> \<not> (summarizerClientId clientA \<noteq> None \<and> summarizerClientId clientA \<noteq> clientId clientA)
   \<and> \<not> executorLive clientA
   \<and> factoryThrows creationThrows = Some (Error ''no connection'')
   \<and> fst (summarizeOnDemand creationThrows ''now'' clientA) =
       Inl (newSummarizingWarning ''no connection'' ''summarizerRun'' False)
   \<and> filter isStartCall (trace (snd (summarizeOnDemand creationThrows ''now'' clientA))) = []
   \<and> factoryThrows buildThrows = None \<and> buildResult buildThrows = Inl (Error ''no results'')
   \<and> fst (summarizeOnDemand buildThrows ''now'' clientA) =
       Inl (newSummarizingWarning ''no results'' ''summarizerRun'' False)
   \<and> createResult creationFails = Inl (Error ''no connection'')
   \<and> \<not> createThrows creationFails \<and> buildResult creationFails = Inr ()
   \<and> \<not> isl (fst (summarizeOnDemand creationFails ''now'' clientA))
   \<and> (case fst (summarizeOnDemand creationFails ''now'' clientA) of
         Inl w \<Rightarrow> None | Inr b \<Rightarrow> summarizerStarted b) =
       Some (Failure ''Failed to create cancellation token'' (Error ''no connection''))
   \<and> createResult startFails = Inr freshToken \<and> clientId clientA \<noteq> None
   \<and> startResult startFails = Inl (Error ''start failed'') \<and> buildResult startFails = Inr ()
   \<and> (case fst (summarizeOnDemand startFails ''now'' clientA) of
         Inl w \<Rightarrow> None | Inr b \<Rightarrow> summarizerStarted b) =
       Some (Failure ''Failed to start summarizer'' (Error ''start failed''))"
proof -
  have d: "disposed (dispose clientA)" by simp
  have c: "\<not> disposed clientA"
    "\<not> (summarizerClientId clientA \<noteq> None \<and> summarizerClientId clientA \<noteq> clientId clientA)"
    "\<not> executorLive clientA"
    by (simp_all add: clientA_facts executorLive_def)
  have st: "\<not> disposed startedA"
    "\<not> (summarizerClientId startedA \<noteq> None \<and> summarizerClientId startedA \<noteq> clientId startedA)"
    "executorLive startedA"
    by (simp_all add: startedA_eval executorLive_def executor1_def)
  have el: "summarizerClientId electedElsewhere \<noteq> None"
    "summarizerClientId electedElsewhere \<noteq> clientId electedElsewhere"
    by (simp_all add: electedElsewhere_def newSummarizer_def)
  have er: "attachedOnDemand executorRefuses = Inl (Error ''already summarizing'')"
    by (simp add: executorRefuses_def)
  have ct: "factoryThrows creationThrows = Some (Error ''no connection'')"
    by (simp add: factoryThrows_def creationThrows_def creationFails_def)
  have bt: "factoryThrows buildThrows = None" "buildResult buildThrows = Inl (Error ''no results'')"
    by (simp_all add: factoryThrows_def buildThrows_def onDemandThenStop_def)
  have cf: "createResult creationFails = Inl (Error ''no connection'')"
    "\<not> createThrows creationFails" "buildResult creationFails = Inr ()"
    by (simp_all add: creationFails_def)
  have sf: "createResult startFails = Inr freshToken" "clientId clientA \<noteq> None"
    "startResult startFails = Inl (Error ''start failed'')" "buildResult startFails = Inr ()"
    by (simp_all add: startFails_def clientA_facts)
  note t1 = summarizeOnDemand_throws [of creationFails "''now''" "dispose clientA"]
  note t2 = summarizeOnDemand_throws [of creationFails "''now''" clientA]
  note t3 = summarizeOnDemand_throws [of creationFails "''now''" electedElsewhere]
  note t4 = summarizeOnDemand_throws [of startFails "''now''" clientA]
  note t5 = summarizeOnDemand_throws [of executorRefuses "''now''" startedA]
  note t6 = summarizeOnDemand_throws [of creationThrows "''now''" clientA]
  note t7 = summarizeOnDemand_throws [of buildThrows "''now''" clientA]
  from t1 d have "\<exists>w. fst (summarizeOnDemand creationFails ''now'' (dispose clientA)) = Inl w"
    by blast
  then have 1: "isl (fst (summarizeOnDemand creationFails ''now'' (dispose clientA)))"
    by auto
  from t1 d have 2: "snd (summarizeOnDemand creationFails ''now'' (dispose clientA)) =
       emit (WrapErrorLogged ''summarizerRun'') (dispose clientA)"
    by blast
  from t3 el have "\<exists>w. fst (summarizeOnDemand creationFails ''now'' electedElsewhere) = Inl w"
    by blast
  then have 3: "isl (fst (summarizeOnDemand creationFails ''now'' electedElsewhere))"
    by auto
  from t2 c cf
  have "\<exists>b. fst (summarizeOnDemand creationFails ''now'' clientA) = Inr b
      \<and> summarizerStarted b = Some (Failure ''Failed to create cancellation token'' (Error ''no connection''))"
    by blast
  then have 4: "\<not> isl (fst (summarizeOnDemand creationFails ''now'' clientA))"
    "(case fst (summarizeOnDemand creationFails ''now'' clientA) of
         Inl w \<Rightarrow> None | Inr b \<Rightarrow> summarizerStarted b) =
       Some (Failure ''Failed to create cancellation token'' (Error ''no connection''))"
    by auto
  from t4 c sf
  have "\<exists>b. fst (summarizeOnDemand startFails ''now'' clientA) = Inr b
      \<and> summarizerStarted b = Some (Failure ''Failed to start summarizer'' (Error ''start failed''))"
    by blast
  then have 5: "(case fst (summarizeOnDemand startFails ''now'' clientA) of
         Inl w \<Rightarrow> None | Inr b \<Rightarrow> summarizerStarted b) =
       Some (Failure ''Failed to start summarizer'' (Error ''start failed''))"
    by auto
  from t5 st er
  have "fst (summarizeOnDemand executorRefuses ''now'' startedA) =
       Inl (newSummarizingWarning (message (Error ''already summarizing'')) ''summarizerRun'' False)"
    by blast
  then have 6: "fst (summarizeOnDemand executorRefuses ''now'' startedA) =
       Inl (newSummarizingWarning ''already summarizing'' ''summarizerRun'' False)"
    by simp
  from t6 c ct
  have "fst (summarizeOnDemand creationThrows ''now'' clientA) =
          Inl (newSummarizingWarning (message (Error ''no connection'')) ''summarizerRun'' False)
        \<and> filter isStartCall (trace (snd (summarizeOnDemand creationThrows ''now'' clientA))) =
            filter isStartCall (trace clientA)"
    by blast
  then have 7: "fst (summarizeOnDemand creationThrows ''now'' clientA) =
       Inl (newSummarizingWarning ''no connection'' ''summarizerRun'' False)"
    "filter isStartCall (trace (snd (summarizeOnDemand creationThrows ''now'' clientA))) = []"
    by (simp_all add: clientA_facts)
  from t7 c bt
  have "fst (summarizeOnDemand buildThrows ''now'' clientA) =
       Inl (newSummarizingWarning (message (Error ''no results'')) ''summarizerRun'' False)"
    by blast
  then have 8: "fst (summarizeOnDemand buildThrows ''now'' clientA) =
       Inl (newSummarizingWarning ''no results'' ''summarizerRun'' False)"
    by simp
  show ?thesis
    by (intro conjI d c st el er ct bt cf sf 1 2 3 4 5 6 7 8)
qed



end
